theory Spec2Isabelle
  imports Main
begin

section \<open>Facebook Messenger automation: a shallow embedding\<close>

text \<open>
  The repository holds two variants of one Puppeteer script:
  \<^item> \<^verbatim>\<open>Messenger/src/messenger.js\<close>, the Apify actor (definitions with the suffix
    \<open>_actor\<close> where the two variants differ);
  \<^item> \<^verbatim>\<open>Messenger/src/messengerrrr.js\<close>, whose header calls it
    \<^verbatim>\<open>enhanced-messenger.js\<close> (suffix \<open>_enh\<close>), entered through \<^verbatim>\<open>main.js\<close>.

  Functions that are character for character the same in both files are embedded once.

  The browser is not part of the program. Every answer it gives (what a selector matches,
  whether a page load throws, what an in-page script returns) is an input of the model,
  collected in records called scripts, one field per call site. Every call the program
  makes on the browser is appended to a trace, so that what the program did can be read
  off the final state.
\<close>

subsection \<open>Values, events and state\<close>

text \<open>The JavaScript values the input object and the \<^verbatim>\<open>headless\<close> argument can hold.\<close>

datatype jsval =
    JUndefined
  | JNull
  | JBool bool
  | JNum int
  | JStr string
  | JArr "jsval list"
  | JObj "(string \<times> jsval) list"

text \<open>An element handle, with what the browser will answer when the program uses it.\<close>

record element =
  el_sel :: string            \<comment> \<open>the selector that located it\<close>
  el_box :: bool              \<comment> \<open>\<^verbatim>\<open>boundingBox()\<close> is an object (\<open>True\<close>) or \<^verbatim>\<open>null\<close>\<close>
  el_click :: "string option" \<comment> \<open>\<open>Some m\<close>: \<^verbatim>\<open>click()\<close> rejects with message \<open>m\<close>\<close>
  el_type :: "string option"  \<comment> \<open>\<open>Some m\<close>: \<^verbatim>\<open>type()\<close> and \<^verbatim>\<open>focus()\<close> reject with \<open>m\<close>\<close>
  el_editable :: bool         \<comment> \<open>\<^verbatim>\<open>el.contentEditable === "true"\<close>\<close>

text \<open>
  What a call site passes where the callee expects an element handle: \<^verbatim>\<open>null\<close>, a handle,
  or (in one place of \<^verbatim>\<open>messenger.js\<close>) a selector string.
\<close>

datatype jsref = RNull | RElem element | RStr string

datatype frame = AnchorFrame | ChallengeFrame

text \<open>
  One event per call on the browser, the key-value store, the file system or the timer.
  Pointer coordinates are floating-point numbers in the source and are left out.
\<close>

datatype event =
    Goto string
  | Reload
  | Delay int
  | MouseMove
  | BoundingBox string
  | ElemClick string
  | ElemTripleClick string
  | ElemType string string
  | ElemFocus string
  | ElemEvaluate string
  | KeyPress string
  | KeyDown string
  | KeyUp string
  | ScrollBy int
  | Query string
  | WaitFor string
  | Evaluate string
  | Frames
  | FrameQuery frame string
  | FrameWaitFor frame string
  | FrameEval frame string
  | AwaitRace
  | ReadCookies
  | SetCookie
  | LoadStored string
  | SaveStored string
  | Download string

text \<open>An answer of the browser at a call site that may reject.\<close>

datatype 'a reply = Gives 'a | Raises string

text \<open>
  The record one profile yields (\<^verbatim>\<open>AttemptOutcome\<close> in the specification). A field the
  object literal does not have is \<open>None\<close>. \<open>timestamp\<close> is the clock value the ISO string
  is printed from.
\<close>

record outcome =
  success :: bool
  profileId :: string
  url :: string
  error :: "string option"
  durationMs :: "int option"
  message :: "string option"
  messageButtonPresent :: "string option"
  messageSent :: "string option"
  timestamp :: "int option"

text \<open>
  The state threaded through the program: the trace, a clock in milliseconds that only
  \<^verbatim>\<open>delay\<close> advances, the pending results of \<^verbatim>\<open>Math.random()\<close> (a draw \<open>d\<close> stands for
  the call whose \<^verbatim>\<open>Math.floor(Math.random() * k)\<close> is \<open>d mod k\<close>; an exhausted list
  draws \<open>0\<close>), the records pushed to the sink, and the two \<^verbatim>\<open>let\<close> variables of
  \<^verbatim>\<open>sendMessageToProfile\<close> that its \<^verbatim>\<open>catch\<close> handler reads.
\<close>

record st =
  trace :: "event list"
  clock :: int
  rnd :: "nat list"
  sink :: "outcome list"
  v_messageButtonPresent :: string
  v_messageSent :: string

text \<open>
  How a call can fail: it rejects with an error (\<open>Thrown\<close>, with the message of the
  error), which a \<^verbatim>\<open>catch\<close> handler receives; or an error is raised outside every promise
  (\<open>Uncaught\<close>), which no handler of the program receives and on which Node ends the
  process.
\<close>

datatype failure = Thrown string | Uncaught string

text \<open>
  An asynchronous function: it either resolves with a value (\<open>Inr\<close>) or fails (\<open>Inl\<close>),
  and leaves a new state.
\<close>

type_synonym 'a io = "st \<Rightarrow> (failure + 'a) \<times> st"

definition ret :: "'a \<Rightarrow> 'a io" where
  "ret x s = (Inr x, s)"

definition throw :: "string \<Rightarrow> 'a io" where
  "throw m s = (Inl (Thrown m), s)"

definition uncaught :: "string \<Rightarrow> 'a io" where
  "uncaught m s = (Inl (Uncaught m), s)"

definition bnd :: "'a io \<Rightarrow> ('a \<Rightarrow> 'b io) \<Rightarrow> 'b io" where
  "bnd m f s = (case m s of (Inl e, s') \<Rightarrow> (Inl e, s') | (Inr x, s') \<Rightarrow> f x s')"

definition seq :: "'a io \<Rightarrow> 'b io \<Rightarrow> 'b io" where
  "seq m k = bnd m (\<lambda>_. k)"

text \<open>
  \<^verbatim>\<open>try { m } catch (err) { h(err.message) }\<close>; an error that is not thrown to the program
  passes the handler by.
\<close>

definition try_catch :: "'a io \<Rightarrow> (string \<Rightarrow> 'a io) \<Rightarrow> 'a io" where
  "try_catch m h s =
     (case m s of
        (Inl (Thrown e), s') \<Rightarrow> h e s'
      | (Inl (Uncaught e), s') \<Rightarrow> (Inl (Uncaught e), s')
      | (Inr x, s') \<Rightarrow> (Inr x, s'))"

definition emit :: "event \<Rightarrow> unit io" where
  "emit e s = (Inr (), s\<lparr>trace := trace s @ [e]\<rparr>)"

text \<open>A call on the browser: it is recorded, then resolves or rejects as scripted.\<close>

definition ask :: "event \<Rightarrow> 'a reply \<Rightarrow> 'a io" where
  "ask e r = seq (emit e) (case r of Gives x \<Rightarrow> ret x | Raises m \<Rightarrow> throw m)"

definition act :: "event \<Rightarrow> string option \<Rightarrow> unit io" where
  "act e r = seq (emit e) (case r of None \<Rightarrow> ret () | Some m \<Rightarrow> throw m)"

text \<open>
  A call recorded with \<open>emit\<close> alone is taken to resolve: pointer moves and key presses,
  \<^verbatim>\<open>boundingBox()\<close>, the in-page scripts other than the liveness check of a page load,
  the element lookups of the login form and of the challenge frames, and the reads and
  writes of the cookie store. Each of these calls sits inside a \<^verbatim>\<open>try\<close> block of the
  program; a rejection there would be one more way into a handler that the calls scripted
  with \<open>ask\<close> and \<open>act\<close> reach already.
\<close>

text \<open>\<^verbatim>\<open>for (const x of xs) { await body(x) }\<close>\<close>

fun for_each :: "'a list \<Rightarrow> ('a \<Rightarrow> unit io) \<Rightarrow> unit io" where
  "for_each [] body s = (Inr (), s)"
| "for_each (x # xs) body s =
     (case body x s of
        (Inl e, s') \<Rightarrow> (Inl e, s')
      | (Inr _, s') \<Rightarrow> for_each xs body s')"

subsection \<open>Utility helpers\<close>

text \<open>\<^verbatim>\<open>Math.random()\<close>: takes the next draw.\<close>

definition random :: "nat io" where
  "random s = (case rnd s of [] \<Rightarrow> (Inr 0, s) | d # ds \<Rightarrow> (Inr d, s\<lparr>rnd := ds\<rparr>))"

text \<open>\<^verbatim>\<open>Math.floor(Math.random() * (max - min + 1)) + min\<close>\<close>

definition rand :: "int \<Rightarrow> int \<Rightarrow> int io" where
  "rand lo hi = bnd random (\<lambda>d. ret (int (d mod nat (hi - lo + 1)) + lo))"

definition delay :: "int \<Rightarrow> unit io" where
  "delay ms s = (Inr (), s\<lparr>trace := trace s @ [Delay ms], clock := clock s + ms\<rparr>)"

text \<open>The idiom \<^verbatim>\<open>await delay(rand(lo, hi))\<close>.\<close>

definition delay_rand :: "int \<Rightarrow> int \<Rightarrow> unit io" where
  "delay_rand lo hi = bnd (rand lo hi) delay"

text \<open>\<^verbatim>\<open>Date.now()\<close>\<close>

definition now :: "int io" where
  "now s = (Inr (clock s), s)"

subsection \<open>Human-like actions\<close>

text \<open>
  The method calls on a value that should be an element handle. On \<^verbatim>\<open>null\<close> and on a
  string the property read or the call is a \<^verbatim>\<open>TypeError\<close>.
\<close>

definition boundingBox :: "jsref \<Rightarrow> bool io" where
  "boundingBox r =
     (case r of
        RNull \<Rightarrow> throw ''Cannot read properties of null (reading 'boundingBox')''
      | RStr _ \<Rightarrow> throw ''element.boundingBox is not a function''
      | RElem e \<Rightarrow> seq (emit (BoundingBox (el_sel e))) (ret (el_box e)))"

definition click :: "jsref \<Rightarrow> unit io" where
  "click r =
     (case r of
        RNull \<Rightarrow> throw ''Cannot read properties of null (reading 'click')''
      | RStr _ \<Rightarrow> throw ''element.click is not a function''
      | RElem e \<Rightarrow> act (ElemClick (el_sel e)) (el_click e))"

definition tripleClick :: "jsref \<Rightarrow> unit io" where
  "tripleClick r =
     (case r of
        RNull \<Rightarrow> throw ''Cannot read properties of null (reading 'click')''
      | RStr _ \<Rightarrow> throw ''elementHandle.click is not a function''
      | RElem e \<Rightarrow> act (ElemTripleClick (el_sel e)) (el_click e))"

definition typeText :: "jsref \<Rightarrow> string \<Rightarrow> unit io" where
  "typeText r txt =
     (case r of
        RNull \<Rightarrow> throw ''Cannot read properties of null (reading 'type')''
      | RStr _ \<Rightarrow> throw ''elementHandle.type is not a function''
      | RElem e \<Rightarrow> act (ElemType (el_sel e) txt) (el_type e))"

text \<open>
  \<^verbatim>\<open>humanType(elementHandle, text, { min, max })\<close>. \<open>None\<close> as the text is \<^verbatim>\<open>undefined\<close>
  (an environment variable that is not set), which \<^verbatim>\<open>for ... of\<close> cannot iterate.
\<close>

definition humanType :: "jsref \<Rightarrow> string option \<Rightarrow> int \<Rightarrow> int \<Rightarrow> unit io" where
  "humanType elementHandle txt lo hi =
     seq (tripleClick elementHandle)
    (seq (delay_rand 100 300)
     (case txt of
        None \<Rightarrow> throw ''text is not iterable''
      | Some cs \<Rightarrow>
          for_each cs (\<lambda>c. seq (typeText elementHandle [c]) (delay_rand lo hi))))"

text \<open>
  \<^verbatim>\<open>humanMove(page, from, to, steps)\<close>: \<open>steps + 1\<close> pointer moves, each computed from two
  calls of \<^verbatim>\<open>Math.random()\<close> and followed by a pause of 5 to 30 ms.
\<close>

definition humanMove :: "nat \<Rightarrow> unit io" where
  "humanMove steps =
     for_each [0 ..< steps + 1]
       (\<lambda>i. seq random (seq random (seq (emit MouseMove) (delay_rand 5 30))))"

text \<open>
  \<^verbatim>\<open>humanScroll(page, distance, steps)\<close>; \<^verbatim>\<open>Math.round(distance / steps)\<close> for the
  positive integers the call sites pass.
\<close>

definition humanScroll :: "int \<Rightarrow> int \<Rightarrow> unit io" where
  "humanScroll distance steps =
     for_each [0 ..< nat steps]
       (\<lambda>i. seq (emit (ScrollBy ((2 * distance + steps) div (2 * steps))))
                 (delay_rand 100 350))"

text \<open>\<^verbatim>\<open>humanClick(page, element)\<close>: the \<^verbatim>\<open>else\<close> branch is empty (absent in the actor).\<close>

definition humanClick :: "jsref \<Rightarrow> unit io" where
  "humanClick element =
     bnd (boundingBox element) (\<lambda>box.
       if box then
         seq (rand (- 5) 5)
        (seq (rand (- 5) 5)
        (seq (humanMove 15)
        (seq (rand 50 150)
             (click element))))
       else ret ())"

subsection \<open>Cookie persistence\<close>

text \<open>\<^verbatim>\<open>email.replace(/[^a-z0-9_\-\.@]/gi, "_")\<close>\<close>

definition safe_char :: "char \<Rightarrow> char" where
  "safe_char c =
     (if c \<in> set (''abcdefghijklmnopqrstuvwxyz'' @ ''ABCDEFGHIJKLMNOPQRSTUVWXYZ'' @
                   ''0123456789'' @ ''_-.@'')
      then c else CHR ''_'')"

definition safe_name :: "string \<Rightarrow> string" where
  "safe_name email = map safe_char email"

text \<open>The key of the actor's key-value store, and the file name of the other variant.\<close>

definition cookieKey_actor :: "string \<Rightarrow> string" where
  "cookieKey_actor email = ''cookies-'' @ safe_name email"

definition cookieFilePathFor :: "string \<Rightarrow> string" where
  "cookieFilePathFor email = ''cookies/'' @ safe_name email @ ''.json''"

text \<open>
  What the store and the browser answer about cookies: whether an array is stored under
  the key, and whether \<^verbatim>\<open>page.setCookie\<close> rejects.
\<close>

record cookie_script =
  ck_stored :: bool
  ck_set :: "string option"

text \<open>
  \<^verbatim>\<open>loadCookies(page, email)\<close>, given the key. Both variants: look the key up; when
  cookies are stored, install them, and answer \<^verbatim>\<open>false\<close> when that throws.
\<close>

definition loadCookies :: "cookie_script \<Rightarrow> string \<Rightarrow> bool io" where
  "loadCookies ck key =
     seq (emit (LoadStored key))
     (if ck_stored ck then
        try_catch (seq (act SetCookie (ck_set ck)) (ret True)) (\<lambda>err. ret False)
      else ret False)"

text \<open>
  \<^verbatim>\<open>saveCookies(page, email)\<close>. \<open>None\<close> is \<^verbatim>\<open>undefined\<close>, on which \<^verbatim>\<open>email.replace\<close> is a
  \<^verbatim>\<open>TypeError\<close>; the actor builds the key after reading the cookies, the other variant's
  \<^verbatim>\<open>cookieFilePathFor\<close> runs after them too.
\<close>

definition saveCookies :: "(string \<Rightarrow> string) \<Rightarrow> string option \<Rightarrow> unit io" where
  "saveCookies key email =
     seq (emit ReadCookies)
     (case email of
        None \<Rightarrow> throw ''Cannot read properties of undefined (reading 'replace')''
      | Some e \<Rightarrow> emit (SaveStored (key e)))"

subsection \<open>reCAPTCHA solving\<close>

text \<open>
  What \<^verbatim>\<open>downloadAudio(url)\<close> of \<^verbatim>\<open>messengerrrr.js\<close> meets. Its promise resolves when the
  response ends (\<open>Fetched\<close>). It rejects when the response emits \<^verbatim>\<open>error\<close> or \<^verbatim>\<open>https.get\<close>
  throws (\<open>Rejected\<close>). The request that \<^verbatim>\<open>https.get\<close> returns has no listener for
  \<^verbatim>\<open>error\<close>: when the connection fails the promise neither resolves nor rejects, and the
  event ends the process (\<open>Unheard\<close>).
\<close>

datatype download = Fetched | Rejected string | Unheard string

text \<open>
  What the page answers while a challenge is handled. The fields from \<open>cs_audio_button\<close>
  to \<open>cs_verify_button\<close> are read by \<^verbatim>\<open>messengerrrr.js\<close> only; \<open>cs_still_present k\<close> is
  the answer of poll number \<open>k\<close> of the manual window.
\<close>

record captcha_script =
  cs_present :: bool
  cs_iframe_wait :: "string option"
  cs_anchor_frame :: bool
  cs_checkbox :: "element option"
  cs_bframe :: bool
  cs_audio_button :: "element option"
  cs_link_wait :: "string option"
  cs_audio_link :: "string reply"
  cs_download :: download
  cs_audio_input :: "element option"
  cs_verify_button :: "element option"
  cs_still_present :: "nat \<Rightarrow> bool"

text \<open>
  The part both variants share: wait for the reCAPTCHA iframe, click the checkbox of the
  anchor frame if there is one, then look for the challenge frame. The result is whether
  a challenge frame is there.
\<close>

definition recaptchaCheckbox :: "captcha_script \<Rightarrow> bool io" where
  "recaptchaCheckbox cs =
     seq (delay_rand 1000 2000)
    (seq (act (WaitFor ''iframe[src*=\"recaptcha\"]'') (cs_iframe_wait cs))
    (seq (emit Frames)
    (seq (if cs_anchor_frame cs then
            seq (emit (FrameQuery AnchorFrame ''#recaptcha-anchor''))
              (case cs_checkbox cs of
                 None \<Rightarrow> ret ()
               | Some checkbox \<Rightarrow> seq (click (RElem checkbox)) (delay_rand 2000 3000))
          else ret ())
    (seq (delay 1000)
    (seq (emit Frames)
         (ret (cs_bframe cs)))))))"

text \<open>\<^verbatim>\<open>solveRecaptchaAudio(page)\<close> of \<^verbatim>\<open>messenger.js\<close>.\<close>

definition solveRecaptchaAudio_actor :: "captcha_script \<Rightarrow> bool io" where
  "solveRecaptchaAudio_actor cs =
     try_catch
       (bnd (recaptchaCheckbox cs) (\<lambda>challengeFrame.
          if \<not> challengeFrame then ret True
          else ret False))
       (\<lambda>err. ret False)"

text \<open>\<^verbatim>\<open>downloadAudio(url)\<close> and \<^verbatim>\<open>processAudioChallenge(audioUrl)\<close> of \<^verbatim>\<open>messengerrrr.js\<close>.\<close>

definition downloadAudio :: "download \<Rightarrow> string \<Rightarrow> unit io" where
  "downloadAudio answer link =
     seq (emit (Download link))
     (case answer of
        Fetched \<Rightarrow> ret ()
      | Rejected m \<Rightarrow> throw m
      | Unheard m \<Rightarrow> uncaught m)"

definition numbers :: "string list" where
  "numbers = [''zero'', ''one'', ''two'', ''three'', ''four'', ''five'', ''six'', ''seven'',
              ''eight'', ''nine'']"

definition processAudioChallenge :: "captcha_script \<Rightarrow> string \<Rightarrow> string option io" where
  "processAudioChallenge cs audioUrl =
     try_catch
       (seq (downloadAudio (cs_download cs) audioUrl)
       (bnd random (\<lambda>d.
        seq (delay_rand 2000 4000)
            (ret (Some (numbers ! (d mod length numbers)))))))
       (\<lambda>err. ret None)"

text \<open>
  \<^verbatim>\<open>solveRecaptchaAudio(page)\<close> of \<^verbatim>\<open>messengerrrr.js\<close>, in three pieces: what follows
  \<^verbatim>\<open>if (audioText)\<close> (\<open>submitAudioAnswer\<close>), what follows the check for the challenge
  frame (\<open>audioChallenge\<close>), and the function. A string is truthy when it is not empty.
\<close>

definition submitAudioAnswer :: "captcha_script \<Rightarrow> string \<Rightarrow> bool io" where
  "submitAudioAnswer cs audioText =
     seq (emit (FrameQuery ChallengeFrame ''#audio-response''))
     (case cs_audio_input cs of
        None \<Rightarrow> ret False
      | Some audioInput \<Rightarrow>
          seq (click (RElem audioInput))
         (seq (delay_rand 500 1000)
         (seq (typeText (RElem audioInput) audioText)
         (seq (delay_rand 500 1000)
         (seq (emit (FrameQuery ChallengeFrame ''#recaptcha-verify-button''))
              (case cs_verify_button cs of
                 None \<Rightarrow> ret False
               | Some verifyButton \<Rightarrow>
                   seq (click (RElem verifyButton))
                  (seq (delay_rand 3000 5000)
                       (ret True))))))))"

definition audioChallenge :: "captcha_script \<Rightarrow> bool io" where
  "audioChallenge cs =
     seq (delay_rand 1000 2000)
    (seq (emit (FrameQuery ChallengeFrame ''#recaptcha-audio-button, .rc-button-audio''))
    (seq (case cs_audio_button cs of
            None \<Rightarrow> ret ()
          | Some audioButton \<Rightarrow> seq (click (RElem audioButton)) (delay_rand 2000 3000))
    (seq (act (FrameWaitFor ChallengeFrame ''.rc-audiochallenge-tdownload-link'')
            (cs_link_wait cs))
    (bnd (ask (FrameEval ChallengeFrame ''.rc-audiochallenge-tdownload-link'')
            (cs_audio_link cs)) (\<lambda>audioLink.
     bnd (processAudioChallenge cs audioLink) (\<lambda>audioText.
       case audioText of
         None \<Rightarrow> ret False
       | Some answer \<Rightarrow>
           if answer = [] then ret False else submitAudioAnswer cs answer))))))"

definition solveRecaptchaAudio_enh :: "captcha_script \<Rightarrow> bool io" where
  "solveRecaptchaAudio_enh cs =
     try_catch
       (bnd (recaptchaCheckbox cs) (\<lambda>challengeFrame.
          if \<not> challengeFrame then ret True
          else audioChallenge cs))
       (\<lambda>err. ret False)"

text \<open>
  The manual window of \<^verbatim>\<open>solveCaptcha\<close>:
  \<^verbatim>\<open>while (Date.now() - start < maxWait) { poll; if (!stillPresent) return true; await delay(2000) }\<close>
  followed by the function's final \<^verbatim>\<open>return false\<close>. \<open>k\<close> numbers the polls.
\<close>

definition maxWait :: int where
  "maxWait = 3 * 60 * 1000"

function manualWait :: "captcha_script \<Rightarrow> int \<Rightarrow> nat \<Rightarrow> bool io" where
  "manualWait cs start k s =
     (if clock s - start < maxWait then
        (let s1 = s\<lparr>trace := trace s @ [Evaluate ''stillPresent'']\<rparr> in
         if \<not> cs_still_present cs k then (Inr True, s1)
         else manualWait cs start (Suc k)
                (s1\<lparr>trace := trace s1 @ [Delay 2000], clock := clock s1 + 2000\<rparr>))
      else (Inr False, s))"
  by pat_completeness auto
termination
  by (relation "measure (\<lambda>(cs, start, k, s). nat (maxWait - (clock s - start)))") auto

text \<open>
  JavaScript truthiness, for the \<^verbatim>\<open>headless\<close> argument and the input object.
\<close>

fun truthy :: "jsval \<Rightarrow> bool" where
  "truthy JUndefined = False"
| "truthy JNull = False"
| "truthy (JBool b) = b"
| "truthy (JNum n) = (n \<noteq> 0)"
| "truthy (JStr s) = (s \<noteq> [])"
| "truthy (JArr xs) = True"
| "truthy (JObj kvs) = True"

text \<open>\<^verbatim>\<open>solveCaptcha(page, headless)\<close> of \<^verbatim>\<open>messenger.js\<close>.\<close>

definition solveCaptcha_actor :: "captcha_script \<Rightarrow> jsval \<Rightarrow> bool io" where
  "solveCaptcha_actor cs headless =
     seq (emit (Evaluate ''captchaPresent''))
     (if \<not> cs_present cs then ret True
      else
        bnd (solveRecaptchaAudio_actor cs) (\<lambda>audioSolved.
          if audioSolved then ret True
          else if \<not> truthy headless then
            bnd now (\<lambda>start. manualWait cs start 0)
          else ret False))"

text \<open>
  \<^verbatim>\<open>solveCaptcha(page)\<close> of \<^verbatim>\<open>messengerrrr.js\<close>, which reads \<^verbatim>\<open>process.env.HEADLESS\<close>;
  \<open>None\<close> is a variable that is not set.
\<close>

definition solveCaptcha_enh :: "captcha_script \<Rightarrow> string option \<Rightarrow> bool io" where
  "solveCaptcha_enh cs env_HEADLESS =
     seq (emit (Evaluate ''captchaPresent''))
     (if \<not> cs_present cs then ret True
      else
        bnd (solveRecaptchaAudio_enh cs) (\<lambda>audioSolved.
          if audioSolved then ret True
          else if env_HEADLESS \<noteq> Some ''true'' then
            bnd now (\<lambda>start. manualWait cs start 0)
          else ret False))"

subsection \<open>Login detection and handling\<close>

text \<open>\<^verbatim>\<open>s.includes(p)\<close>\<close>

fun str_includes :: "string \<Rightarrow> string \<Rightarrow> bool" where
  "str_includes [] p = (p = [])"
| "str_includes (c # cs) p = (take (length p) (c # cs) = p \<or> str_includes cs p)"

text \<open>What the page shows when \<^verbatim>\<open>isLoginRequired\<close> inspects it.\<close>

record login_probe =
  lp_url :: string
  hasLoginForm :: bool
  hasPasswordField :: bool
  hasLoginButton :: bool
  hasLoginText :: bool

definition isLoginRequired :: "login_probe \<Rightarrow> bool io" where
  "isLoginRequired page =
     (let currentUrl = lp_url page;
          isLoginPage =
            (str_includes currentUrl ''/login'' \<or>
             str_includes currentUrl ''/signin'' \<or>
             str_includes currentUrl ''login.facebook.com'' \<or>
             str_includes currentUrl ''m.facebook.com/login'')
      in if isLoginPage then ret True
         else seq (emit (Evaluate ''loginElements''))
                (ret (hasLoginForm page \<and> hasPasswordField page \<and>
                      (hasLoginButton page \<or> hasLoginText page))))"

text \<open>What the page answers during \<^verbatim>\<open>performFacebookLogin\<close>.\<close>

record login_script =
  ls_form_wait :: "string option"
  ls_email_field :: "element option"
  ls_password_field :: "element option"
  ls_login_button :: "element option"
  ls_race :: "string option"
  ls_captcha_after :: bool
  ls_captcha :: captcha_script
  ls_probe :: login_probe
  ls_error_text :: "string option"

definition emailSelector :: string where
  "emailSelector = ''input[name=\"email\"], input[type=\"email\"]''"

definition passwordSelector :: string where
  "passwordSelector = ''input[name=\"pass\"], input[type=\"password\"]''"

definition loginButtonSelector :: string where
  "loginButtonSelector =
     ''button[name=\"login\"], input[value=\"Log In\"], '' @
     ''[data-testid=\"royal_login_button\"], button[type=\"submit\"]''"

text \<open>
  \<^verbatim>\<open>performFacebookLogin\<close> is the same in both files but for two calls: how the password
  is typed, and how \<^verbatim>\<open>solveCaptcha\<close> is called. Its steps are named after the comments
  that head them in the source: ``Fill email'', ``Fill password'' (one definition for each
  file), ``Click login button'', and everything from ``Wait for navigation or login
  completion'' on, which takes the call of \<^verbatim>\<open>solveCaptcha\<close>. The function's own
  \<^verbatim>\<open>catch\<close> logs the error and throws it again.
\<close>

definition fillEmail :: "login_script \<Rightarrow> string option \<Rightarrow> unit io" where
  "fillEmail page email =
     seq (act (WaitFor emailSelector) (ls_form_wait page))
    (seq (emit (Query emailSelector))
     (case ls_email_field page of
        Some emailField \<Rightarrow>
          seq (humanClick (RElem emailField))
         (seq (delay_rand 300 600)
         (seq (humanType (RElem emailField) email 80 180)
              (delay_rand 400 800)))
      | None \<Rightarrow> throw ''Email field not found''))"

definition clickLoginButton :: "login_script \<Rightarrow> unit io" where
  "clickLoginButton page =
     seq (emit (Query loginButtonSelector))
     (case ls_login_button page of
        Some loginButton \<Rightarrow> humanClick (RElem loginButton)
      | None \<Rightarrow> emit (KeyPress ''Enter''))"

definition awaitLogin :: "login_script \<Rightarrow> bool io \<Rightarrow> bool io" where
  "awaitLogin page solveCaptcha_call =
     seq (act AwaitRace (ls_race page))
    (seq (delay_rand 2000 4000)
    (seq (emit (Evaluate ''captchaPresent''))
    (seq (if ls_captcha_after page then
            bnd solveCaptcha_call (\<lambda>solved.
              if \<not> solved then throw ''CAPTCHA could not be solved during login''
              else delay_rand 3000 5000)
          else ret ())
    (bnd (isLoginRequired (ls_probe page)) (\<lambda>stillOnLoginPage.
       if stillOnLoginPage then
         seq (emit (Evaluate ''errorMessage''))
         (case ls_error_text page of
            None \<Rightarrow> throw ''Login failed: Still on login page''
          | Some errorMessage \<Rightarrow>
              if errorMessage \<noteq> [] then throw (''Login failed: '' @ errorMessage)
              else throw ''Login failed: Still on login page'')
       else ret True)))))"

text \<open>
  \<^verbatim>\<open>performFacebookLogin(page, email, password)\<close> of \<^verbatim>\<open>messenger.js\<close>. It has three
  parameters, so a fourth argument of a call is dropped. It hands \<^verbatim>\<open>humanType\<close> the
  selector string, and calls \<^verbatim>\<open>solveCaptcha(page)\<close> with no second argument.
\<close>

definition fillPassword_actor :: "login_script \<Rightarrow> string option \<Rightarrow> unit io" where
  "fillPassword_actor page password =
     seq (emit (Query passwordSelector))
     (case ls_password_field page of
        Some passwordField \<Rightarrow>
          seq (humanClick (RElem passwordField))
         (seq (delay_rand 300 600)
         (seq (humanType (RStr passwordSelector) password 80 180)
              (delay_rand 500 1000)))
      | None \<Rightarrow> throw ''Password field not found'')"

definition performFacebookLogin_actor ::
  "login_script \<Rightarrow> string option \<Rightarrow> string option \<Rightarrow> bool io" where
  "performFacebookLogin_actor page email password =
     seq (fillEmail page email)
    (seq (fillPassword_actor page password)
    (seq (clickLoginButton page)
         (awaitLogin page (solveCaptcha_actor (ls_captcha page) JUndefined))))"

text \<open>
  The environment variables the program reads; \<open>None\<close> is a variable that is not set.
\<close>

record env =
  LOGIN_EMAIL :: "string option"
  LOGIN_PASSWORD :: "string option"
  HEADLESS :: "string option"

text \<open>
  \<^verbatim>\<open>performFacebookLogin(page, email, password)\<close> of \<^verbatim>\<open>messengerrrr.js\<close>; its
  \<^verbatim>\<open>solveCaptcha\<close> reads the environment.
\<close>

definition fillPassword_enh :: "login_script \<Rightarrow> string option \<Rightarrow> unit io" where
  "fillPassword_enh page password =
     seq (emit (Query passwordSelector))
     (case ls_password_field page of
        Some passwordField \<Rightarrow>
          seq (humanClick (RElem passwordField))
         (seq (delay_rand 300 600)
         (seq (humanType (RElem passwordField) password 80 180)
              (delay_rand 500 1000)))
      | None \<Rightarrow> throw ''Password field not found'')"

definition performFacebookLogin_enh ::
  "env \<Rightarrow> login_script \<Rightarrow> string option \<Rightarrow> string option \<Rightarrow> bool io" where
  "performFacebookLogin_enh ev page email password =
     seq (fillEmail page email)
    (seq (fillPassword_enh page password)
    (seq (clickLoginButton page)
         (awaitLogin page (solveCaptcha_enh (ls_captcha page) (HEADLESS ev)))))"

subsection \<open>Navigation with retry\<close>

text \<open>What one page-load attempt meets: whether \<^verbatim>\<open>page.goto\<close> rejects, and what the
  liveness check answers.\<close>

record nav_attempt =
  na_goto :: "string option"
  na_loaded :: "bool reply"

definition maxAttempts :: nat where
  "maxAttempts = 3"

text \<open>Decimal digits, for the number in the template string.\<close>

fun string_of_nat :: "nat \<Rightarrow> string" where
  "string_of_nat n =
     (if n < 10 then [''0123456789'' ! n]
      else string_of_nat (n div 10) @ [''0123456789'' ! (n mod 10)])"

text \<open>The body of the \<^verbatim>\<open>try\<close> block of one attempt, after \<^verbatim>\<open>attempt++\<close>.\<close>

definition loadPage :: "string \<Rightarrow> nav_attempt \<Rightarrow> unit io" where
  "loadPage target a =
     seq (act (Goto target) (na_goto a))
    (seq (delay_rand 3000 6000)
    (bnd (ask (Evaluate ''pageLoaded'') (na_loaded a)) (\<lambda>pageLoaded.
       if pageLoaded then ret ()
       else throw ''Page did not load properly'')))"

text \<open>
  \<^verbatim>\<open>while (!navigationSuccess && attempt < maxAttempts) { try { attempt++; ... } catch (navError) { ... } }\<close>
  of \<^verbatim>\<open>sendMessageToProfile\<close> (both files). \<open>nav k\<close> is what attempt number \<open>k\<close> meets.
\<close>

function navigate :: "string \<Rightarrow> (nat \<Rightarrow> nav_attempt) \<Rightarrow> bool \<Rightarrow> nat \<Rightarrow> unit io" where
  "navigate target nav navigationSuccess attempt s =
     (if \<not> navigationSuccess \<and> attempt < maxAttempts then
        (case loadPage target (nav (Suc attempt)) s of
           (Inr _, s1) \<Rightarrow> navigate target nav True (Suc attempt) s1
         | (Inl (Uncaught e), s1) \<Rightarrow> (Inl (Uncaught e), s1)
         | (Inl (Thrown navError), s1) \<Rightarrow>
             if Suc attempt = maxAttempts then
               (Inl (Thrown (''Failed to load profile after '' @ string_of_nat maxAttempts @
                             '' attempts: '' @ navError)), s1)
             else
               navigate target nav navigationSuccess (Suc attempt)
                 (snd (delay_rand 2000 4000 s1)))
      else (Inr (), s))"
  by pat_completeness auto
termination
  by (relation "measure (\<lambda>(target, nav, ok, attempt, s). maxAttempts - attempt)") auto

subsection \<open>Send message to profile\<close>

record profile =
  pid :: string
  purl :: string

text \<open>
  What the browser answers while one profile is processed. \<open>ps_send_button\<close> answers
  \<^verbatim>\<open>page.$\<close> for each selector of the send-button list. The last field is the answer of
  the result sink to the records of this profile: \<open>Some m\<close> when it rejects the record
  with message \<open>m\<close>.
\<close>

record page_script =
  ps_cookies :: cookie_script
  ps_nav :: "nat \<Rightarrow> nav_attempt"
  ps_probe :: login_probe
  ps_login :: login_script
  ps_goto_back :: "string option"
  ps_message_button :: "element option reply"
  ps_race :: "string option"
  ps_message_input :: "element option reply"
  ps_send_button :: "string \<Rightarrow> element option reply"
  ps_push :: "outcome \<Rightarrow> string option"

definition messageButtonSelector :: string where
  "messageButtonSelector = ''div[aria-label=\"Message\"][role=\"button\"]''"

definition messageInputSelectors :: "string list" where
  "messageInputSelectors =
     [''div[aria-label=\"Message\"][role=\"textbox\"][contenteditable=\"true\"]'']"

definition sendSelectors :: "string list" where
  "sendSelectors =
     [''div.xsrhx6k[role=\"button\"]'',
      ''div.x5yr21d svg.xsrhx6k'',
      ''svg.xsrhx6k[aria-label=\"Send\"]'']"

text \<open>
  \<^verbatim>\<open>for (const selector of selectors) { try { x = await page.$(selector); if (x) break; } catch (e) {} }\<close>
\<close>

fun find_first :: "string list \<Rightarrow> (string \<Rightarrow> element option reply) \<Rightarrow> element option io" where
  "find_first [] answer s = (Inr None, s)"
| "find_first (selector # rest) answer s =
     (let s1 = s\<lparr>trace := trace s @ [Query selector]\<rparr> in
      case answer selector of
        Gives (Some found) \<Rightarrow> (Inr (Some found), s1)
      | Gives None \<Rightarrow> find_first rest answer s1
      | Raises e \<Rightarrow> find_first rest answer s1)"

definition set_messageButtonPresent :: "string \<Rightarrow> unit io" where
  "set_messageButtonPresent v s = (Inr (), s\<lparr>v_messageButtonPresent := v\<rparr>)"

definition set_messageSent :: "string \<Rightarrow> unit io" where
  "set_messageSent v s = (Inr (), s\<lparr>v_messageSent := v\<rparr>)"

text \<open>
  From ``Clicking message button'' to ``Message sent successfully'': the same statements in
  both files, run once the message button is known to be there.
\<close>

definition typeMessage :: "element \<Rightarrow> string \<Rightarrow> unit io" where
  "typeMessage messageInput msg =
     seq (humanClick (RElem messageInput))
    (seq (delay_rand 500 1000)
    (seq (emit (ElemEvaluate (el_sel messageInput)))
    (if el_editable messageInput then
       seq (act (ElemFocus (el_sel messageInput)) (el_type messageInput))
      (seq (emit (KeyDown ''Control''))
      (seq (emit (KeyPress ''a''))
      (seq (emit (KeyUp ''Control''))
      (seq (delay 100)
           (typeText (RElem messageInput) msg)))))
     else humanType (RElem messageInput) (Some msg) 100 250)))"

definition pressSend :: "page_script \<Rightarrow> unit io" where
  "pressSend page =
     bnd (find_first sendSelectors (ps_send_button page)) (\<lambda>sendButton.
       case sendButton of
         Some button \<Rightarrow> seq (humanClick (RElem button)) (set_messageSent ''Yes'')
       | None \<Rightarrow> seq (emit (KeyPress ''Enter'')) (set_messageSent ''Yes''))"

definition composeAndSend :: "page_script \<Rightarrow> element \<Rightarrow> string \<Rightarrow> unit io" where
  "composeAndSend page messageButton msg =
     seq (humanClick (RElem messageButton))
    (seq (set_messageButtonPresent ''Yes'')
    (seq (act AwaitRace (ps_race page))
    (seq (delay_rand 2000 4000)
    (bnd (find_first messageInputSelectors (\<lambda>selector. ps_message_input page))
      (\<lambda>messageInput.
       case messageInput of
         Some inputField \<Rightarrow>
           seq (typeMessage inputField msg)
          (seq (delay_rand 1000 2000)
          (seq (pressSend page)
               (delay_rand 4000 7000)))
       | None \<Rightarrow> throw ''Message input field not found'')))))"

text \<open>
  ``Look for messaging interface'' of \<^verbatim>\<open>messenger.js\<close>: one \<^verbatim>\<open>try\<close> block whose handler
  replaces every error by the same message.
\<close>

definition messagingInterface_actor :: "page_script \<Rightarrow> string \<Rightarrow> unit io" where
  "messagingInterface_actor page msg =
     try_catch
       (bnd (ask (Query messageButtonSelector) (ps_message_button page)) (\<lambda>messageButton.
          case messageButton of
            None \<Rightarrow> throw ''Profile unavailable or no messaging option found''
          | Some button \<Rightarrow> composeAndSend page button msg))
       (\<lambda>err. throw ''Profile unavailable or no messaging option found'')"

text \<open>
  The same step of \<^verbatim>\<open>messengerrrr.js\<close>: the lookup and a first \<^verbatim>\<open>humanClick\<close> sit in a
  \<^verbatim>\<open>try\<close> block whose handler only logs, so a lookup that throws leaves \<^verbatim>\<open>messageButton\<close>
  \<^verbatim>\<open>null\<close>, and what \<^verbatim>\<open>humanClick\<close> throws is dropped; the \<^verbatim>\<open>else\<close> branch of
  \<^verbatim>\<open>if (messageButton)\<close> cannot be reached.
\<close>

definition lookupMessageButton_enh :: "page_script \<Rightarrow> element option io" where
  "lookupMessageButton_enh page s =
     (let s1 = s\<lparr>trace := trace s @ [Query messageButtonSelector]\<rparr> in
      case ps_message_button page of
        Raises e \<Rightarrow> (Inr None, s1)
      | Gives None \<Rightarrow> (Inr None, snd (humanClick RNull s1))
      | Gives (Some button) \<Rightarrow> (Inr (Some button), snd (humanClick (RElem button) s1)))"

definition messagingInterface_enh :: "page_script \<Rightarrow> string \<Rightarrow> unit io" where
  "messagingInterface_enh page msg =
     bnd (lookupMessageButton_enh page) (\<lambda>messageButton.
       case messageButton of
         None \<Rightarrow> throw ''Profile unavailable or no messaging option found''
       | Some button \<Rightarrow> composeAndSend page button msg)"

text \<open>``Check if login required'' with what follows a login, in each file.\<close>

definition env_or_empty :: "string option \<Rightarrow> string" where
  "env_or_empty v = (case v of None \<Rightarrow> [] | Some x \<Rightarrow> x)"

definition loginIfRequired_actor :: "env \<Rightarrow> page_script \<Rightarrow> profile \<Rightarrow> string \<Rightarrow> unit io" where
  "loginIfRequired_actor ev page prof email =
     bnd (isLoginRequired (ps_probe page)) (\<lambda>needsLogin.
       if needsLogin then
         seq (performFacebookLogin_actor (ps_login page) (Some email)
                (Some (env_or_empty (LOGIN_PASSWORD ev))))
        (seq (saveCookies cookieKey_actor (Some email))
        (seq (act (Goto (purl prof)) (ps_goto_back page))
             (delay_rand 3000 5000)))
       else ret ())"

definition loginIfRequired_enh :: "env \<Rightarrow> page_script \<Rightarrow> profile \<Rightarrow> unit io" where
  "loginIfRequired_enh ev page prof =
     bnd (isLoginRequired (ps_probe page)) (\<lambda>needsLogin.
       if needsLogin then
         seq (performFacebookLogin_enh ev (ps_login page) (LOGIN_EMAIL ev) (LOGIN_PASSWORD ev))
        (seq (saveCookies cookieFilePathFor (LOGIN_EMAIL ev))
        (seq (act (Goto (purl prof)) (ps_goto_back page))
             (delay_rand 3000 5000)))
       else ret ())"

text \<open>``Human-like behavior'': the arguments of \<^verbatim>\<open>humanScroll\<close> are drawn left to right.\<close>

definition browseLikeHuman :: "unit io" where
  "browseLikeHuman =
     bnd (rand 200 500) (\<lambda>distance.
     bnd (rand 3 6) (\<lambda>steps.
     seq (humanScroll distance steps)
         (delay_rand 2000 4000)))"

text \<open>
  Everything \<^verbatim>\<open>sendMessageToProfile\<close> does before it looks for the messaging interface:
  cookies, navigation, login, scrolling. In \<^verbatim>\<open>messengerrrr.js\<close> the blocked-page check
  (an in-page script whose result is not used) comes after the navigation.
\<close>

definition reachProfile_actor :: "env \<Rightarrow> page_script \<Rightarrow> profile \<Rightarrow> string \<Rightarrow> unit io" where
  "reachProfile_actor ev page prof email =
     seq (if email \<noteq> [] then seq (loadCookies (ps_cookies page) (cookieKey_actor email)) (ret ())
          else ret ())
    (seq (navigate (purl prof) (ps_nav page) False 0)
    (seq (loginIfRequired_actor ev page prof email)
         browseLikeHuman))"

definition reachProfile_enh :: "env \<Rightarrow> page_script \<Rightarrow> profile \<Rightarrow> unit io" where
  "reachProfile_enh ev page prof =
     seq (case LOGIN_EMAIL ev of
            None \<Rightarrow> ret ()
          | Some email \<Rightarrow>
              if email \<noteq> [] then
                seq (loadCookies (ps_cookies page) (cookieFilePathFor email)) (ret ())
              else ret ())
    (seq (navigate (purl prof) (ps_nav page) False 0)
    (seq (emit (Evaluate ''isBlocked''))
    (seq (loginIfRequired_enh ev page prof)
         browseLikeHuman)))"

text \<open>The two object literals \<^verbatim>\<open>sendMessageToProfile\<close> returns.\<close>

definition preview :: "string \<Rightarrow> string" where
  "preview msg = take 50 msg @ (if length msg > 50 then ''...'' else [])"

definition succeeded :: "profile \<Rightarrow> string \<Rightarrow> int \<Rightarrow> outcome io" where
  "succeeded prof msg start s =
     (Inr \<lparr>success = True, profileId = pid prof, url = purl prof, error = None,
           durationMs = Some (clock s - start), message = Some (preview msg),
           messageButtonPresent = Some (v_messageButtonPresent s),
           messageSent = Some (v_messageSent s), timestamp = None\<rparr>, s)"

definition failed :: "profile \<Rightarrow> int \<Rightarrow> string \<Rightarrow> outcome io" where
  "failed prof start err s =
     (Inr \<lparr>success = False, profileId = pid prof, url = purl prof, error = Some err,
           durationMs = Some (clock s - start), message = None,
           messageButtonPresent = Some (v_messageButtonPresent s),
           messageSent = Some (v_messageSent s), timestamp = None\<rparr>, s)"

text \<open>
  \<^verbatim>\<open>sendMessageToProfile(page, profile, message, email, headless)\<close> of \<^verbatim>\<open>messenger.js\<close>.
  \<^verbatim>\<open>headless\<close> is passed on as a fourth argument of \<^verbatim>\<open>performFacebookLogin\<close>, which has
  three parameters: the value goes nowhere.
\<close>

definition sendMessageToProfile_actor ::
  "env \<Rightarrow> page_script \<Rightarrow> profile \<Rightarrow> string \<Rightarrow> string \<Rightarrow> jsval \<Rightarrow> outcome io" where
  "sendMessageToProfile_actor ev page prof msg email headless =
     bnd now (\<lambda>start.
     seq (set_messageButtonPresent ''No'')
    (seq (set_messageSent ''No'')
    (try_catch
       (seq (reachProfile_actor ev page prof email)
       (seq (messagingInterface_actor page msg)
            (succeeded prof msg start)))
       (failed prof start))))"

text \<open>\<^verbatim>\<open>sendMessageToProfile(page, profile, message)\<close> of \<^verbatim>\<open>messengerrrr.js\<close>.\<close>

definition sendMessageToProfile_enh ::
  "env \<Rightarrow> page_script \<Rightarrow> profile \<Rightarrow> string \<Rightarrow> outcome io" where
  "sendMessageToProfile_enh ev page prof msg =
     bnd now (\<lambda>start.
     seq (set_messageButtonPresent ''No'')
    (seq (set_messageSent ''No'')
    (try_catch
       (seq (reachProfile_enh ev page prof)
       (seq (messagingInterface_enh page msg)
            (succeeded prof msg start)))
       (failed prof start))))"

subsection \<open>Batch processing\<close>

text \<open>
  ``Establishing Facebook session'': a \<^verbatim>\<open>try\<close> block whose handler only logs. The actor
  always loads the cookies; the other variant does so under \<^verbatim>\<open>if (email)\<close>.
\<close>

record home_script =
  hs_goto :: "string option"
  hs_cookies :: cookie_script
  hs_reload :: "string option"


text \<open>\<^verbatim>\<open>!v\<close> for a variable of the environment: not set, or the empty string.\<close>

definition unset :: "string option \<Rightarrow> bool" where
  "unset v = (case v of None \<Rightarrow> True | Some x \<Rightarrow> x = [])"

definition establishSession_enh :: "home_script \<Rightarrow> string option \<Rightarrow> unit io" where
  "establishSession_enh home email =
     try_catch
       (seq (act (Goto ''https://www.facebook.com'') (hs_goto home))
       (seq (delay_rand 2000 4000)
       (if unset email then ret ()
        else
          seq (loadCookies (hs_cookies home) (cookieFilePathFor (env_or_empty email)))
         (seq (act Reload (hs_reload home))
              (delay_rand 2000 3000)))))
       (\<lambda>homeError. ret ())"

text \<open>
  \<^verbatim>\<open>Actor.pushData(record)\<close>, and \<^verbatim>\<open>logResult(record)\<close> which appends a line to the log:
  the record is added to the sink unless the sink rejects it.
\<close>

definition pushData :: "(outcome \<Rightarrow> string option) \<Rightarrow> outcome \<Rightarrow> unit io" where
  "pushData answer r s =
     (case answer r of
        None \<Rightarrow> (Inr (), s\<lparr>sink := sink s @ [r]\<rparr>)
      | Some m \<Rightarrow> (Inl (Thrown m), s))"

text \<open>The pause between profiles: \<^verbatim>\<open>if (i > 0) { const pauseTime = rand(3000, 10000); await delay(pauseTime); }\<close>\<close>

definition pauseBetweenProfiles :: "nat \<Rightarrow> unit io" where
  "pauseBetweenProfiles i = (if i > 0 then bnd (rand 3000 10000) delay else ret ())"


text \<open>The same body in \<^verbatim>\<open>processAll\<close> of \<^verbatim>\<open>messengerrrr.js\<close>.\<close>

definition profileStep_enh ::
  "env \<Rightarrow> page_script \<Rightarrow> string \<Rightarrow> nat \<Rightarrow> profile \<Rightarrow> outcome io" where
  "profileStep_enh ev page msg i prof =
     try_catch
       (seq (pauseBetweenProfiles i)
       (bnd (sendMessageToProfile_enh ev page prof msg) (\<lambda>result.
        bnd now (\<lambda>t.
        seq (pushData (ps_push page) (result\<lparr>timestamp := Some t\<rparr>))
            (ret result)))))
       (\<lambda>err.
          bnd now (\<lambda>t.
          seq (pushData (ps_push page)
                 \<lparr>success = False, profileId = pid prof, url = purl prof, error = Some err,
                  durationMs = None, message = None, messageButtonPresent = None,
                  messageSent = None, timestamp = Some t\<rparr>)
              (ret \<lparr>success = False, profileId = pid prof, url = purl prof, error = Some err,
                    durationMs = None, message = None, messageButtonPresent = None,
                    messageSent = None, timestamp = Some t\<rparr>)))"


fun processLoop_enh ::
  "env \<Rightarrow> (nat \<Rightarrow> page_script) \<Rightarrow> string \<Rightarrow> nat \<Rightarrow> profile list \<Rightarrow> outcome list io" where
  "processLoop_enh ev pages msg i [] s = (Inr [], s)"
| "processLoop_enh ev pages msg i (prof # rest) s =
     (case profileStep_enh ev (pages i) msg i prof s of
        (Inl e, s1) \<Rightarrow> (Inl e, s1)
      | (Inr r, s1) \<Rightarrow>
          (case processLoop_enh ev pages msg (Suc i) rest s1 of
             (Inl e, s2) \<Rightarrow> (Inl e, s2)
           | (Inr rs, s2) \<Rightarrow> (Inr (r # rs), s2)))"


text \<open>
  \<^verbatim>\<open>processAll(profiles, message)\<close> of \<^verbatim>\<open>messengerrrr.js\<close>: the check of the environment,
  then (the browser launched) the session and the loop.
\<close>

definition processAll ::
  "env \<Rightarrow> home_script \<Rightarrow> (nat \<Rightarrow> page_script) \<Rightarrow> profile list \<Rightarrow> string \<Rightarrow> outcome list io" where
  "processAll ev home pages profiles msg =
     (if unset (LOGIN_EMAIL ev) \<or> unset (LOGIN_PASSWORD ev) then
        throw ''LOGIN_EMAIL and LOGIN_PASSWORD must be set in .env file''
      else
        seq (establishSession_enh home (LOGIN_EMAIL ev))
            (processLoop_enh ev pages msg 0 profiles))"

subsection \<open>Input validation\<close>

text \<open>\<^verbatim>\<open>!v\<close>, \<^verbatim>\<open>a || b\<close>, \<^verbatim>\<open>v.key\<close> (also \<^verbatim>\<open>v?.key\<close>), \<^verbatim>\<open>!Array.isArray(v)\<close>,
  \<^verbatim>\<open>v.length === 0\<close> and \<^verbatim>\<open>typeof v !== "string"\<close> on the values of the input object.\<close>

definition falsy :: "jsval \<Rightarrow> bool" where
  "falsy v = (\<not> truthy v)"

definition js_or :: "jsval \<Rightarrow> jsval \<Rightarrow> jsval" where
  "js_or a b = (if truthy a then a else b)"

definition js_get :: "jsval \<Rightarrow> string \<Rightarrow> jsval" where
  "js_get v key =
     (case v of
        JObj kvs \<Rightarrow> (case map_of kvs key of Some x \<Rightarrow> x | None \<Rightarrow> JUndefined)
      | _ \<Rightarrow> JUndefined)"

definition not_array :: "jsval \<Rightarrow> bool" where
  "not_array v = (case v of JArr xs \<Rightarrow> False | _ \<Rightarrow> True)"

definition length_is_zero :: "jsval \<Rightarrow> bool" where
  "length_is_zero v = (case v of JArr xs \<Rightarrow> xs = [] | JStr x \<Rightarrow> x = [] | _ \<Rightarrow> False)"

definition not_string :: "jsval \<Rightarrow> bool" where
  "not_string v = (case v of JStr x \<Rightarrow> False | _ \<Rightarrow> True)"

definition env_value :: "string option \<Rightarrow> jsval" where
  "env_value v = (case v of None \<Rightarrow> JUndefined | Some x \<Rightarrow> JStr x)"

text \<open>
  The string literals that stand first in the \<^verbatim>\<open>||\<close> chains of \<^verbatim>\<open>Actor.main\<close> (an e-mail
  address and a password, lines 561 and 563 of \<^verbatim>\<open>messenger.js\<close>) and the two profile
  addresses of its default list (lines 565 and 568). They are account data; the program
  only tests that they are truthy and hands them on, so the model gives each a name and a
  non-empty text of its own rather than the text of the source.
\<close>

definition hardcodedEmail :: string where
  "hardcodedEmail = ''<e-mail literal, messenger.js line 561>''"

definition hardcodedPassword :: string where
  "hardcodedPassword = ''<password literal, messenger.js line 563>''"

definition defaultProfiles :: jsval where
  "defaultProfiles =
     JArr [JObj [(''id'', JStr ''profile-001''),
                 (''url'', JStr ''<profile address, messenger.js line 565>'')],
           JObj [(''id'', JStr ''profile-002''),
                 (''url'', JStr ''<profile address, messenger.js line 568>'')]]"

text \<open>What \<^verbatim>\<open>Actor.main\<close> goes on with once its validation has passed.\<close>

record resolved =
  r_loginEmail :: jsval
  r_loginPassword :: jsval
  r_profiles :: jsval
  r_message :: jsval
  r_headless :: jsval

text \<open>
  \<^verbatim>\<open>Actor.main\<close> of \<^verbatim>\<open>messenger.js\<close>, from \<^verbatim>\<open>Actor.getInput()\<close> to the last validation
  (lines 557 to 589). \<open>Inl\<close> is the error thrown; after \<open>Inr\<close> the next statement that acts
  is \<^verbatim>\<open>puppeteer.launch\<close>. The messages are given without their leading emoji.
\<close>

definition resolveInput_actor :: "env \<Rightarrow> jsval \<Rightarrow> string + resolved" where
  "resolveInput_actor ev got =
     (let input = js_or got (JObj []);
          loginEmail =
            js_or (js_or (JStr hardcodedEmail) (env_value (LOGIN_EMAIL ev)))
                  (js_get input ''loginEmail'');
          loginPassword =
            js_or (js_or (JStr hardcodedPassword) (env_value (LOGIN_PASSWORD ev)))
                  (js_get input ''loginPassword'');
          profiles = js_or (js_get input ''profiles'') defaultProfiles;
          msg = js_or (js_get input ''message'') (JStr ''Hello World'');
          headless = js_or (js_get input ''headless'') (JBool False)
      in if falsy loginEmail \<or> falsy loginPassword then
           Inl ''loginEmail and loginPassword are required inputs (via .env or INPUT.json)''
         else if falsy profiles \<or> not_array profiles \<or> length_is_zero profiles then
           Inl ''profiles array is required and must contain at least one profile''
         else if falsy msg \<or> not_string msg then
           Inl ''message is required and must be a string''
         else
           Inr \<lparr>r_loginEmail = loginEmail, r_loginPassword = loginPassword,
                r_profiles = profiles, r_message = msg, r_headless = headless\<rparr>)"

text \<open>
  The checks of \<^verbatim>\<open>main.js\<close> (lines 10 to 24), after which it calls \<^verbatim>\<open>runMessenger(input)\<close>,
  and the checks at the head of \<^verbatim>\<open>runMessenger\<close> (lines 887 to 895), after which it sets
  the environment from the input and calls \<^verbatim>\<open>processAll\<close>.
\<close>

definition validate_main :: "jsval \<Rightarrow> string + unit" where
  "validate_main input =
     (if falsy (js_get input ''loginEmail'') \<or> falsy (js_get input ''loginPassword'') then
        Inl ''loginEmail and loginPassword are required in INPUT.json or Apify Console.''
      else if falsy (js_get input ''profiles'') \<or> not_array (js_get input ''profiles'') \<or>
              length_is_zero (js_get input ''profiles'') then
        Inl ''profiles (array) required in INPUT.json or Apify Console.''
      else if falsy (js_get input ''message'') then
        Inl ''message required in INPUT.json or Apify Console.''
      else Inr ())"

definition validate_runMessenger :: "jsval \<Rightarrow> string + unit" where
  "validate_runMessenger input =
     (if input = JUndefined then
        Inl ''Cannot read properties of undefined (reading 'loginEmail')''
      else if input = JNull then
        Inl ''Cannot read properties of null (reading 'loginEmail')''
      else if falsy (js_get input ''loginEmail'') \<or> falsy (js_get input ''loginPassword'') then
        Inl ''loginEmail and loginPassword are required in input''
      else if falsy (js_get input ''profiles'') \<or> not_array (js_get input ''profiles'') \<or>
              length_is_zero (js_get input ''profiles'') then
        Inl ''profiles (array) required in input''
      else if falsy (js_get input ''message'') then
        Inl ''message required in input''
      else Inr ())"

subsection \<open>Properties of traces\<close>

text \<open>
  The navigation claim in the words of the specification. \<open>paced prev seen evs\<close>: in the
  events \<open>evs\<close>, which follow the event \<open>prev\<close>, every page load that comes after an earlier
  page load (\<open>seen\<close>: one has been seen already) has as its immediate predecessor a pause
  of 2000 to 4000 ms.
\<close>

fun is_goto :: "event \<Rightarrow> bool" where
  "is_goto (Goto u) = True"
| "is_goto _ = False"

definition backoff_pause :: "event option \<Rightarrow> bool" where
  "backoff_pause prev = (case prev of Some (Delay d) \<Rightarrow> 2000 \<le> d \<and> d \<le> 4000 | _ \<Rightarrow> False)"

fun paced :: "event option \<Rightarrow> bool \<Rightarrow> event list \<Rightarrow> bool" where
  "paced prev seen [] = True"
| "paced prev seen (e # es) =
     ((if is_goto e \<and> seen then backoff_pause prev else True) \<and>
      paced (Some e) (seen \<or> is_goto e) es)"

text \<open>The message of the failure of one page-load attempt; \<open>None\<close> when it succeeds.\<close>

definition attempt_failure :: "nav_attempt \<Rightarrow> string option" where
  "attempt_failure a =
     (case na_goto a of
        Some m \<Rightarrow> Some m
      | None \<Rightarrow>
          (case na_loaded a of
             Raises m \<Rightarrow> Some m
           | Gives loaded \<Rightarrow> if loaded then None else Some ''Page did not load properly''))"

text \<open>The next random draw, and the number \<^verbatim>\<open>rand(lo, hi)\<close> makes of it.\<close>

definition next_draw :: "st \<Rightarrow> nat" where
  "next_draw s = (case rnd s of [] \<Rightarrow> 0 | d # ds \<Rightarrow> d)"

definition drawn :: "int \<Rightarrow> int \<Rightarrow> st \<Rightarrow> int" where
  "drawn lo hi s = int (next_draw s mod nat (hi - lo + 1)) + lo"

text \<open>The events a run adds to the trace.\<close>

definition added :: "st \<Rightarrow> st \<Rightarrow> event list" where
  "added s s' = drop (length (trace s)) (trace s')"

text \<open>
  Input actions: what reaches the page as pointer or keyboard input. Events that type
  nothing but one of the ten number words. Events of the audio path of the challenge:
  every call on the challenge frame, the download, and typing.
\<close>

fun input_action :: "event \<Rightarrow> bool" where
  "input_action MouseMove = True"
| "input_action (ElemClick x) = True"
| "input_action (ElemTripleClick x) = True"
| "input_action (ElemType x y) = True"
| "input_action (ElemFocus x) = True"
| "input_action (KeyPress x) = True"
| "input_action (KeyDown x) = True"
| "input_action (KeyUp x) = True"
| "input_action (ScrollBy n) = True"
| "input_action _ = False"

fun is_click :: "event \<Rightarrow> bool" where
  "is_click (ElemClick x) = True"
| "is_click _ = False"

fun types_number_word :: "event \<Rightarrow> bool" where
  "types_number_word (ElemType x y) = (y \<in> set numbers)"
| "types_number_word _ = True"

fun audio_event :: "event \<Rightarrow> bool" where
  "audio_event (FrameQuery ChallengeFrame x) = True"
| "audio_event (FrameWaitFor ChallengeFrame x) = True"
| "audio_event (FrameEval ChallengeFrame x) = True"
| "audio_event (Download x) = True"
| "audio_event (ElemType x y) = True"
| "audio_event _ = False"

text \<open>
  The manual window shows in the trace as its polls, the in-page script whose result is
  bound to \<^verbatim>\<open>stillPresent\<close>.
\<close>

fun is_poll :: "event \<Rightarrow> bool" where
  "is_poll (Evaluate x) = (x = ''stillPresent'')"
| "is_poll _ = False"

text \<open>
  The situation of claim C8: the wait for the reCAPTCHA iframe succeeds, a click on the
  checkbox (when the anchor frame and the checkbox are there) does not throw, and no
  challenge frame is found afterwards.
\<close>

definition checkbox_resolves :: "captcha_script \<Rightarrow> bool" where
  "checkbox_resolves cs =
     (cs_iframe_wait cs = None \<and> \<not> cs_bframe cs \<and>
      (if cs_anchor_frame cs then
         (case cs_checkbox cs of None \<Rightarrow> True | Some checkbox \<Rightarrow> el_click checkbox = None)
       else True))"

text \<open>
  The audio path of a challenge is open, with response field \<open>audioInput\<close> and verify
  button \<open>verifyButton\<close>: the wait for the reCAPTCHA iframe succeeds, no click on the
  checkbox or on the audio button throws, the challenge frame is there, the download link
  appears and is read, the download resolves, the response field and the verify button
  are found, and the click and the typing on them do not throw.
\<close>

definition audio_path_open :: "captcha_script \<Rightarrow> element \<Rightarrow> element \<Rightarrow> bool" where
  "audio_path_open cs audioInput verifyButton =
     (cs_iframe_wait cs = None \<and>
      (if cs_anchor_frame cs then
         (case cs_checkbox cs of None \<Rightarrow> True | Some checkbox \<Rightarrow> el_click checkbox = None)
       else True) \<and>
      cs_bframe cs \<and>
      (case cs_audio_button cs of None \<Rightarrow> True | Some button \<Rightarrow> el_click button = None) \<and>
      cs_link_wait cs = None \<and>
      (case cs_audio_link cs of Gives link \<Rightarrow> True | Raises e \<Rightarrow> False) \<and>
      cs_download cs = Fetched \<and>
      cs_audio_input cs = Some audioInput \<and>
      el_click audioInput = None \<and> el_type audioInput = None \<and>
      cs_verify_button cs = Some verifyButton \<and> el_click verifyButton = None)"

text \<open>
  The state in which the \<^verbatim>\<open>try\<close> block of \<^verbatim>\<open>sendMessageToProfile\<close> starts (both variables
  are \<^verbatim>\<open>"No"\<close>), the state after the detection script of \<^verbatim>\<open>solveCaptcha\<close>, the outcome
  of the second scenario of the specification, and an outcome without its time stamp.
\<close>

definition entry :: "st \<Rightarrow> st" where
  "entry s = s\<lparr>v_messageButtonPresent := ''No'', v_messageSent := ''No''\<rparr>"

definition detected :: "st \<Rightarrow> st" where
  "detected s = s\<lparr>trace := trace s @ [Evaluate ''captchaPresent'']\<rparr>"

definition unavailable :: "profile \<Rightarrow> int \<Rightarrow> outcome" where
  "unavailable prof elapsed =
     \<lparr>success = False, profileId = pid prof, url = purl prof,
      error = Some ''Profile unavailable or no messaging option found'',
      durationMs = Some elapsed, message = None, messageButtonPresent = Some ''No'',
      messageSent = Some ''No'', timestamp = None\<rparr>"


text \<open>
  Frame conditions, used in the proofs: \<open>keeps f m\<close> says that running \<open>m\<close> leaves the
  component \<open>f\<close> of the state as it was; \<open>browser_free f\<close> that \<open>f\<close> does not depend on the
  trace, the clock or the random draws.
\<close>

definition keeps :: "(st \<Rightarrow> 'b) \<Rightarrow> 'a io \<Rightarrow> bool" where
  "keeps f m = (\<forall>s. f (snd (m s)) = f s)"

definition browser_free :: "(st \<Rightarrow> 'b) \<Rightarrow> bool" where
  "browser_free f =
     (\<forall>s t c r. f (s\<lparr>trace := t\<rparr>) = f s \<and> f (s\<lparr>clock := c\<rparr>) = f s \<and> f (s\<lparr>rnd := r\<rparr>) = f s)"

definition well_paced :: "event list \<Rightarrow> bool" where
  "well_paced new = (\<forall>prev seen. (seen \<longrightarrow> backoff_pause prev) \<longrightarrow> paced prev seen new)"

text \<open>
  \<open>only P m\<close>: running \<open>m\<close> appends events to the trace, and each of them satisfies \<open>P\<close>.
  \<open>quiet\<close> events are those that are not polls of the manual window.
\<close>

definition only :: "(event \<Rightarrow> bool) \<Rightarrow> 'a io \<Rightarrow> bool" where
  "only P m = (\<forall>s. \<exists>new. trace (snd (m s)) = trace s @ new \<and> list_all P new)"

definition quiet :: "event \<Rightarrow> bool" where
  "quiet e = (\<not> is_poll e)"

text \<open>
  \<open>settles d\<close>: the promise of the download resolves or rejects. \<open>survives m\<close>: no run of
  \<open>m\<close> ends the process.
\<close>

definition settles :: "download \<Rightarrow> bool" where
  "settles d = (case d of Fetched \<Rightarrow> True | Rejected m \<Rightarrow> True | Unheard m \<Rightarrow> False)"

definition survives :: "'a io \<Rightarrow> bool" where
  "survives m = (\<forall>s e. fst (m s) \<noteq> Inl (Uncaught e))"

subsection \<open>Example scripts\<close>

text \<open>
  Concrete browsers for the scenarios of the specification: elements that can be clicked,
  a profile page that asks for no login, a login page, a challenge the automated strategy
  cannot solve and that goes away at the third poll of the manual window, a challenge whose
  audio path is open, a login form, and a profile page with message button, composer and
  send button.
\<close>

definition elem :: "string \<Rightarrow> element" where
  "elem sel = \<lparr>el_sel = sel, el_box = True, el_click = None, el_type = None, el_editable = True\<rparr>"

definition state0 :: st where
  "state0 = \<lparr>trace = [], clock = 0, rnd = [], sink = [], v_messageButtonPresent = ''No'',
             v_messageSent = ''No''\<rparr>"

definition profile_page :: login_probe where
  "profile_page = \<lparr>lp_url = ''https://www.facebook.com/u1'', hasLoginForm = False,
     hasPasswordField = False, hasLoginButton = False, hasLoginText = False\<rparr>"

definition login_page :: login_probe where
  "login_page = \<lparr>lp_url = ''https://www.facebook.com/login/?next=u1'', hasLoginForm = True,
     hasPasswordField = True, hasLoginButton = True, hasLoginText = True\<rparr>"

definition no_cookies :: cookie_script where
  "no_cookies = \<lparr>ck_stored = False, ck_set = None\<rparr>"

definition captcha_stuck :: captcha_script where
  "captcha_stuck = \<lparr>cs_present = True, cs_iframe_wait = None, cs_anchor_frame = True,
     cs_checkbox = Some (elem ''#recaptcha-anchor''), cs_bframe = True,
     cs_audio_button = None, cs_link_wait = Some ''timeout'', cs_audio_link = Raises ''no link'',
     cs_download = Rejected ''no audio'', cs_audio_input = None, cs_verify_button = None,
     cs_still_present = (\<lambda>k. k < 2)\<rparr>"

definition captcha_audio :: captcha_script where
  "captcha_audio = \<lparr>cs_present = True, cs_iframe_wait = None, cs_anchor_frame = True,
     cs_checkbox = Some (elem ''#recaptcha-anchor''), cs_bframe = True,
     cs_audio_button = Some (elem ''#recaptcha-audio-button''), cs_link_wait = None,
     cs_audio_link = Gives ''https://www.google.com/recaptcha/api2/payload/audio.mp3'',
     cs_download = Fetched, cs_audio_input = Some (elem ''#audio-response''),
     cs_verify_button = Some (elem ''#recaptcha-verify-button''),
     cs_still_present = (\<lambda>k. True)\<rparr>"

definition captcha_checkbox :: captcha_script where
  "captcha_checkbox = captcha_audio\<lparr>cs_bframe := False\<rparr>"

definition login_form :: login_script where
  "login_form = \<lparr>ls_form_wait = None, ls_email_field = Some (elem emailSelector),
     ls_password_field = Some (elem passwordSelector),
     ls_login_button = Some (elem loginButtonSelector), ls_race = None,
     ls_captcha_after = False, ls_captcha = captcha_stuck, ls_probe = profile_page,
     ls_error_text = None\<rparr>"

definition ready_page :: page_script where
  "ready_page = \<lparr>ps_cookies = no_cookies,
     ps_nav = (\<lambda>k. \<lparr>na_goto = None, na_loaded = Gives True\<rparr>),
     ps_probe = profile_page, ps_login = login_form, ps_goto_back = None,
     ps_message_button = Gives (Some (elem messageButtonSelector)), ps_race = None,
     ps_message_input = Gives (Some (elem (hd messageInputSelectors))),
     ps_send_button = (\<lambda>sel. Gives (Some (elem sel))), ps_push = (\<lambda>r. None)\<rparr>"

definition env0 :: env where
  "env0 = \<lparr>LOGIN_EMAIL = Some ''a@x.com'', LOGIN_PASSWORD = Some ''s'', HEADLESS = Some ''true''\<rparr>"

definition home0 :: home_script where
  "home0 = \<lparr>hs_goto = None, hs_cookies = no_cookies, hs_reload = None\<rparr>"

definition p1 :: profile where
  "p1 = \<lparr>pid = ''p1'', purl = ''u1''\<rparr>"

definition p2 :: profile where
  "p2 = \<lparr>pid = ''p2'', purl = ''u2''\<rparr>"

text \<open>
  The same profile page without a message button; with elements none of which has a
  bounding box; and behind a login that is followed by the challenge above.
\<close>

definition nobutton_page :: page_script where
  "nobutton_page = ready_page\<lparr>ps_message_button := Gives None\<rparr>"

definition boxless_page :: page_script where
  "boxless_page = ready_page\<lparr>
     ps_message_button := Gives (Some ((elem messageButtonSelector)\<lparr>el_box := False\<rparr>)),
     ps_message_input := Gives (Some ((elem (hd messageInputSelectors))\<lparr>el_box := False\<rparr>)),
     ps_send_button := (\<lambda>sel. Gives (Some ((elem sel)\<lparr>el_box := False\<rparr>)))\<rparr>"

definition login_challenged :: login_script where
  "login_challenged = login_form\<lparr>ls_captcha_after := True\<rparr>"

definition login_first_page :: page_script where
  "login_first_page = ready_page\<lparr>ps_probe := login_page, ps_login := login_challenged\<rparr>"


section \<open>Proofs\<close>

subsection \<open>The monad and frame conditions\<close>

named_theorems keeps_intros

declare navigate.simps [simp del]
declare manualWait.simps [simp del]

lemma bnd_ret [simp]: "bnd (ret x) f = f x"
  by (rule ext) (simp add: bnd_def ret_def)

lemma bnd_throw [simp]: "bnd (throw e) f = throw e"
  by (rule ext) (simp add: bnd_def throw_def)

lemma seq_ret [simp]: "seq (ret x) k = k"
  by (simp add: seq_def)

lemma seq_throw [simp]: "seq (throw e) k = throw e"
  by (simp add: seq_def)

lemma keepsD: "keeps f m \<Longrightarrow> m s = (r, s') \<Longrightarrow> f s' = f s"
  by (auto simp: keeps_def dest: spec [of _ s])

lemma keeps_ret [keeps_intros]: "keeps f (ret x)"
  by (simp add: keeps_def ret_def)

lemma keeps_throw [keeps_intros]: "keeps f (throw e)"
  by (simp add: keeps_def throw_def)

lemma keeps_uncaught [keeps_intros]: "keeps f (uncaught e)"
  by (simp add: keeps_def uncaught_def)

lemma keeps_bnd [keeps_intros]:
  "keeps f m \<Longrightarrow> (\<And>x. keeps f (g x)) \<Longrightarrow> keeps f (bnd m g)"
  by (auto simp: keeps_def bnd_def split: prod.splits sum.splits)
     (metis snd_conv)+

lemma keeps_seq [keeps_intros]: "keeps f m \<Longrightarrow> keeps f k \<Longrightarrow> keeps f (seq m k)"
  by (simp add: seq_def keeps_bnd)

lemma keeps_try_catch [keeps_intros]:
  "keeps f m \<Longrightarrow> (\<And>e. keeps f (h e)) \<Longrightarrow> keeps f (try_catch m h)"
  by (auto simp: keeps_def try_catch_def split: prod.splits sum.splits failure.splits)
     (metis snd_conv)+

lemma keeps_emit [keeps_intros]: "browser_free f \<Longrightarrow> keeps f (emit e)"
  by (simp add: keeps_def emit_def browser_free_def)

lemma keeps_delay [keeps_intros]: "browser_free f \<Longrightarrow> keeps f (delay ms)"
  by (simp add: keeps_def delay_def browser_free_def)

lemma keeps_random [keeps_intros]: "browser_free f \<Longrightarrow> keeps f random"
  by (simp add: keeps_def random_def browser_free_def split: list.splits)

lemma keeps_now [keeps_intros]: "keeps f now"
  by (simp add: keeps_def now_def)

lemma keeps_if [keeps_intros]: "keeps f a \<Longrightarrow> keeps f b \<Longrightarrow> keeps f (if c then a else b)"
  by simp

lemma keeps_case_option [keeps_intros]:
  "keeps f a \<Longrightarrow> (\<And>x. keeps f (b x)) \<Longrightarrow> keeps f (case v of None \<Rightarrow> a | Some x \<Rightarrow> b x)"
  by (cases v) simp_all

lemma keeps_case_reply [keeps_intros]:
  "(\<And>x. keeps f (a x)) \<Longrightarrow> (\<And>e. keeps f (b e)) \<Longrightarrow>
   keeps f (case v of Gives x \<Rightarrow> a x | Raises e \<Rightarrow> b e)"
  by (cases v) simp_all

lemma keeps_case_download [keeps_intros]:
  "keeps f a \<Longrightarrow> (\<And>x. keeps f (b x)) \<Longrightarrow> (\<And>x. keeps f (c x)) \<Longrightarrow>
   keeps f (case v of Fetched \<Rightarrow> a | Rejected x \<Rightarrow> b x | Unheard x \<Rightarrow> c x)"
  by (cases v) simp_all

lemma keeps_case_jsref [keeps_intros]:
  "keeps f a \<Longrightarrow> (\<And>x. keeps f (b x)) \<Longrightarrow> (\<And>x. keeps f (c x)) \<Longrightarrow>
   keeps f (case v of RNull \<Rightarrow> a | RElem x \<Rightarrow> b x | RStr x \<Rightarrow> c x)"
  by (cases v) simp_all

lemma keeps_for_each [keeps_intros]:
  "(\<And>x. keeps f (body x)) \<Longrightarrow> keeps f (for_each xs body)"
  unfolding keeps_def
proof (induction xs)
  case Nil
  then show ?case by simp
next
  case (Cons x xs)
  show ?case
  proof
    fix s
    show "f (snd (for_each (x # xs) body s)) = f s"
      using Cons.prems [of x] Cons.IH [OF Cons.prems]
      by (cases "body x s") (auto split: sum.splits dest: spec [of _ s])
  qed
qed

lemma keeps_rand [keeps_intros]: "browser_free f \<Longrightarrow> keeps f (rand lo hi)"
  unfolding rand_def by (intro keeps_intros)

lemma keeps_delay_rand [keeps_intros]: "browser_free f \<Longrightarrow> keeps f (delay_rand lo hi)"
  unfolding delay_rand_def by (intro keeps_intros)

lemma keeps_ask [keeps_intros]: "browser_free f \<Longrightarrow> keeps f (ask e r)"
  unfolding ask_def by (intro keeps_intros)

lemma keeps_act [keeps_intros]: "browser_free f \<Longrightarrow> keeps f (act e r)"
  unfolding act_def by (intro keeps_intros)

lemma keeps_boundingBox [keeps_intros]: "browser_free f \<Longrightarrow> keeps f (boundingBox r)"
  unfolding boundingBox_def by (intro keeps_intros)

lemma keeps_click [keeps_intros]: "browser_free f \<Longrightarrow> keeps f (click r)"
  unfolding click_def by (intro keeps_intros)

lemma keeps_tripleClick [keeps_intros]: "browser_free f \<Longrightarrow> keeps f (tripleClick r)"
  unfolding tripleClick_def by (intro keeps_intros)

lemma keeps_typeText [keeps_intros]: "browser_free f \<Longrightarrow> keeps f (typeText r x)"
  unfolding typeText_def by (intro keeps_intros)

lemma keeps_humanType [keeps_intros]: "browser_free f \<Longrightarrow> keeps f (humanType r x lo hi)"
  unfolding humanType_def by (intro keeps_intros)

lemma keeps_humanMove [keeps_intros]: "browser_free f \<Longrightarrow> keeps f (humanMove n)"
  unfolding humanMove_def by (intro keeps_intros)

lemma keeps_humanScroll [keeps_intros]: "browser_free f \<Longrightarrow> keeps f (humanScroll d n)"
  unfolding humanScroll_def by (intro keeps_intros)

lemma keeps_humanClick [keeps_intros]: "browser_free f \<Longrightarrow> keeps f (humanClick r)"
  unfolding humanClick_def by (intro keeps_intros)

lemma keeps_loadCookies [keeps_intros]: "browser_free f \<Longrightarrow> keeps f (loadCookies ck k)"
  unfolding loadCookies_def by (intro keeps_intros)

lemma keeps_saveCookies [keeps_intros]: "browser_free f \<Longrightarrow> keeps f (saveCookies k e)"
  unfolding saveCookies_def by (intro keeps_intros)

lemma keeps_recaptchaCheckbox [keeps_intros]: "browser_free f \<Longrightarrow> keeps f (recaptchaCheckbox cs)"
  unfolding recaptchaCheckbox_def by (intro keeps_intros)

lemma keeps_solveRecaptchaAudio_actor [keeps_intros]:
  "browser_free f \<Longrightarrow> keeps f (solveRecaptchaAudio_actor cs)"
  unfolding solveRecaptchaAudio_actor_def by (intro keeps_intros)

lemma keeps_downloadAudio [keeps_intros]: "browser_free f \<Longrightarrow> keeps f (downloadAudio d u)"
  unfolding downloadAudio_def by (intro keeps_intros)

lemma keeps_processAudioChallenge [keeps_intros]:
  "browser_free f \<Longrightarrow> keeps f (processAudioChallenge cs u)"
  unfolding processAudioChallenge_def by (intro keeps_intros)

lemma keeps_submitAudioAnswer [keeps_intros]:
  "browser_free f \<Longrightarrow> keeps f (submitAudioAnswer cs a)"
  unfolding submitAudioAnswer_def by (intro keeps_intros)

lemma keeps_audioChallenge [keeps_intros]: "browser_free f \<Longrightarrow> keeps f (audioChallenge cs)"
  unfolding audioChallenge_def by (intro keeps_intros)

lemma keeps_solveRecaptchaAudio_enh [keeps_intros]:
  "browser_free f \<Longrightarrow> keeps f (solveRecaptchaAudio_enh cs)"
  unfolding solveRecaptchaAudio_enh_def by (intro keeps_intros)

lemma keeps_manualWait [keeps_intros]:
  assumes "browser_free f"
  shows "keeps f (manualWait cs start k)"
  unfolding keeps_def
proof
  fix s
  show "f (snd (manualWait cs start k s)) = f s"
  proof (induction cs start k s rule: manualWait.induct)
    case (1 cs start k s)
    have upd: "\<And>s t c. f (s\<lparr>trace := t, clock := c\<rparr>) = f s" "\<And>s t. f (s\<lparr>trace := t\<rparr>) = f s"
      using assms by (simp_all add: browser_free_def)
    show ?case
      using "1.IH" by (subst manualWait.simps) (simp add: Let_def upd)
  qed
qed

lemma keeps_solveCaptcha_actor [keeps_intros]:
  "browser_free f \<Longrightarrow> keeps f (solveCaptcha_actor cs h)"
  unfolding solveCaptcha_actor_def by (intro keeps_intros)

lemma keeps_solveCaptcha_enh [keeps_intros]:
  "browser_free f \<Longrightarrow> keeps f (solveCaptcha_enh cs h)"
  unfolding solveCaptcha_enh_def by (intro keeps_intros)

lemma keeps_isLoginRequired [keeps_intros]: "browser_free f \<Longrightarrow> keeps f (isLoginRequired p)"
  unfolding isLoginRequired_def Let_def by (intro keeps_intros)

lemma keeps_fillEmail [keeps_intros]: "browser_free f \<Longrightarrow> keeps f (fillEmail p e)"
  unfolding fillEmail_def by (intro keeps_intros)

lemma keeps_clickLoginButton [keeps_intros]: "browser_free f \<Longrightarrow> keeps f (clickLoginButton p)"
  unfolding clickLoginButton_def by (intro keeps_intros)

lemma keeps_awaitLogin [keeps_intros]:
  "browser_free f \<Longrightarrow> keeps f c \<Longrightarrow> keeps f (awaitLogin p c)"
  unfolding awaitLogin_def by (intro keeps_intros)

lemma keeps_fillPassword_actor [keeps_intros]:
  "browser_free f \<Longrightarrow> keeps f (fillPassword_actor p pw)"
  unfolding fillPassword_actor_def by (intro keeps_intros)

lemma keeps_fillPassword_enh [keeps_intros]:
  "browser_free f \<Longrightarrow> keeps f (fillPassword_enh p pw)"
  unfolding fillPassword_enh_def by (intro keeps_intros)

lemma keeps_performFacebookLogin_actor [keeps_intros]:
  "browser_free f \<Longrightarrow> keeps f (performFacebookLogin_actor p e pw)"
  unfolding performFacebookLogin_actor_def by (intro keeps_intros)

lemma keeps_performFacebookLogin_enh [keeps_intros]:
  "browser_free f \<Longrightarrow> keeps f (performFacebookLogin_enh ev p e pw)"
  unfolding performFacebookLogin_enh_def by (intro keeps_intros)

lemma keeps_loadPage [keeps_intros]: "browser_free f \<Longrightarrow> keeps f (loadPage t a)"
  unfolding loadPage_def by (intro keeps_intros)

lemma keeps_navigate [keeps_intros]:
  assumes "browser_free f"
  shows "keeps f (navigate t nav ok a)"
  unfolding keeps_def
proof
  fix s
  show "f (snd (navigate t nav ok a s)) = f s"
  proof (induction t nav ok a s rule: navigate.induct)
    case (1 t nav ok a s)
    have lp: "\<And>r s1. loadPage t (nav (Suc a)) s = (r, s1) \<Longrightarrow> f s1 = f s"
      using keepsD [OF keeps_loadPage [OF assms]] by blast
    have dr: "\<And>s1. f (snd (delay_rand 2000 4000 s1)) = f s1"
      using keeps_delay_rand [OF assms] by (simp add: keeps_def)
    show ?case
      using "1.IH" lp dr
      by (subst navigate.simps) (auto split: prod.splits sum.splits failure.splits)
  qed
qed

lemma browser_free_sink [simp]: "browser_free sink"
  by (simp add: browser_free_def)

lemma browser_free_v_messageSent [simp]: "browser_free v_messageSent"
  by (simp add: browser_free_def)

lemma browser_free_v_messageButtonPresent [simp]: "browser_free v_messageButtonPresent"
  by (simp add: browser_free_def)




lemma keeps_find_first [keeps_intros]: "browser_free f \<Longrightarrow> keeps f (find_first sels answer)"
  unfolding keeps_def
proof (induction sels)
  case Nil
  then show ?case by simp
next
  case (Cons a sels)
  then show ?case
    by (auto simp: Let_def browser_free_def split: reply.splits option.splits)
qed

lemma keeps_typeMessage [keeps_intros]: "browser_free f \<Longrightarrow> keeps f (typeMessage e m)"
  unfolding typeMessage_def by (intro keeps_intros)

lemma keeps_browseLikeHuman [keeps_intros]: "browser_free f \<Longrightarrow> keeps f browseLikeHuman"
  unfolding browseLikeHuman_def by (intro keeps_intros)

lemma keeps_loginIfRequired_actor [keeps_intros]:
  "browser_free f \<Longrightarrow> keeps f (loginIfRequired_actor ev page prof email)"
  unfolding loginIfRequired_actor_def by (intro keeps_intros)

lemma keeps_loginIfRequired_enh [keeps_intros]:
  "browser_free f \<Longrightarrow> keeps f (loginIfRequired_enh ev page prof)"
  unfolding loginIfRequired_enh_def by (intro keeps_intros)

lemma keeps_reachProfile_actor [keeps_intros]:
  "browser_free f \<Longrightarrow> keeps f (reachProfile_actor ev page prof email)"
  unfolding reachProfile_actor_def by (intro keeps_intros)

lemma keeps_reachProfile_enh [keeps_intros]:
  "browser_free f \<Longrightarrow> keeps f (reachProfile_enh ev page prof)"
  unfolding reachProfile_enh_def by (intro keeps_intros)

lemma keeps_sink_set_messageSent [keeps_intros]: "keeps sink (set_messageSent v)"
  by (simp add: keeps_def set_messageSent_def)

lemma keeps_sink_set_messageButtonPresent [keeps_intros]: "keeps sink (set_messageButtonPresent v)"
  by (simp add: keeps_def set_messageButtonPresent_def)

lemma keeps_sink_pressSend [keeps_intros]: "keeps sink (pressSend page)"
  unfolding pressSend_def by (intro keeps_intros browser_free_sink)

lemma keeps_sink_composeAndSend [keeps_intros]: "keeps sink (composeAndSend page b m)"
  unfolding composeAndSend_def by (intro keeps_intros browser_free_sink)

lemma keeps_sink_messagingInterface_actor [keeps_intros]:
  "keeps sink (messagingInterface_actor page m)"
  unfolding messagingInterface_actor_def by (intro keeps_intros browser_free_sink)

lemma keeps_sink_lookupMessageButton_enh [keeps_intros]:
  "keeps sink (lookupMessageButton_enh page)"
  using keeps_humanClick [OF browser_free_sink]
  by (auto simp: keeps_def lookupMessageButton_enh_def Let_def split: reply.splits option.splits)

lemma keeps_sink_messagingInterface_enh [keeps_intros]:
  "keeps sink (messagingInterface_enh page m)"
  unfolding messagingInterface_enh_def by (intro keeps_intros browser_free_sink)

lemma keeps_succeeded [keeps_intros]: "keeps f (succeeded prof m start)"
  by (simp add: keeps_def succeeded_def)

lemma keeps_failed [keeps_intros]: "keeps f (failed prof start e)"
  by (simp add: keeps_def failed_def)



lemma delay_rand_Inr: "delay_rand lo hi s = (r, s') \<Longrightarrow> r = Inr ()"
  by (auto simp: delay_rand_def rand_def random_def bnd_def ret_def delay_def split: list.splits)





lemma send_actor_unfold:
  "sendMessageToProfile_actor ev page prof m email h s =
     try_catch
       (seq (reachProfile_actor ev page prof email)
         (seq (messagingInterface_actor page m) (succeeded prof m (clock s))))
       (failed prof (clock s))
       (s\<lparr>v_messageButtonPresent := ''No'', v_messageSent := ''No''\<rparr>)"
  by (simp add: sendMessageToProfile_actor_def bnd_def now_def seq_def
        set_messageButtonPresent_def set_messageSent_def)

lemma send_enh_unfold:
  "sendMessageToProfile_enh ev page prof m s =
     try_catch
       (seq (reachProfile_enh ev page prof)
         (seq (messagingInterface_enh page m) (succeeded prof m (clock s))))
       (failed prof (clock s))
       (s\<lparr>v_messageButtonPresent := ''No'', v_messageSent := ''No''\<rparr>)"
  by (simp add: sendMessageToProfile_enh_def bnd_def now_def seq_def
        set_messageButtonPresent_def set_messageSent_def)



subsection \<open>Random pauses and navigation\<close>

lemma random_eq: "random s = (Inr (next_draw s), s\<lparr>rnd := tl (rnd s)\<rparr>)"
  by (cases "rnd s") (simp_all add: random_def next_draw_def)

lemma rand_eq: "rand lo hi s = (Inr (drawn lo hi s), s\<lparr>rnd := tl (rnd s)\<rparr>)"
  by (simp add: rand_def bnd_def random_eq ret_def drawn_def)

lemma delay_rand_eq:
  "delay_rand lo hi s =
     (Inr (), s\<lparr>trace := trace s @ [Delay (drawn lo hi s)],
               clock := clock s + drawn lo hi s, rnd := tl (rnd s)\<rparr>)"
  by (simp add: delay_rand_def bnd_def rand_eq delay_def)

lemma drawn_range:
  assumes "lo \<le> hi"
  shows "lo \<le> drawn lo hi s \<and> drawn lo hi s \<le> hi"
proof -
  define k where "k = nat (hi - lo + 1)"
  have pos: "0 < k" using assms by (simp add: k_def)
  have "next_draw s mod k < k" using pos by (rule mod_less_divisor)
  then have "int (next_draw s mod k) < int k" by simp
  moreover have "int k = hi - lo + 1" using assms by (simp add: k_def)
  moreover have "0 \<le> int (next_draw s mod k)" by simp
  ultimately show ?thesis unfolding drawn_def k_def [symmetric] by linarith
qed

lemma drawn_backoff [simp]: "2000 \<le> drawn 2000 4000 s" "drawn 2000 4000 s \<le> 4000"
  using drawn_range [of 2000 4000 s] by simp_all

lemma string_of_nat_3: "string_of_nat 3 = ''3''"
  by simp

lemma loadPage_fst:
  "fst (loadPage t a s) =
     (case attempt_failure a of Some m \<Rightarrow> Inl (Thrown m) | None \<Rightarrow> Inr ())"
  by (simp add: loadPage_def attempt_failure_def seq_def bnd_def act_def ask_def emit_def
        ret_def throw_def delay_rand_eq split: option.splits reply.splits)

lemma loadPage_trace:
  "\<exists>rest. trace (snd (loadPage t a s)) = trace s @ Goto t # rest \<and> filter is_goto rest = []"
  by (simp add: loadPage_def seq_def bnd_def act_def ask_def emit_def
        ret_def throw_def delay_rand_eq split: option.splits reply.splits)

lemma navigate_done: "navigate t nav True a s = (Inr (), s)"
  by (simp add: navigate.simps)

lemma navigate_step:
  "navigate t nav False a s =
     (if a < maxAttempts then
        (case attempt_failure (nav (Suc a)) of
           None \<Rightarrow> (Inr (), snd (loadPage t (nav (Suc a)) s))
         | Some m \<Rightarrow>
             if Suc a = maxAttempts then
               (Inl (Thrown (''Failed to load profile after '' @ string_of_nat maxAttempts @
                             '' attempts: '' @ m)), snd (loadPage t (nav (Suc a)) s))
             else navigate t nav False (Suc a)
                    (snd (delay_rand 2000 4000 (snd (loadPage t (nav (Suc a)) s)))))
      else (Inr (), s))"
proof -
  have lp: "loadPage t (nav (Suc a)) s =
      (case attempt_failure (nav (Suc a)) of Some m \<Rightarrow> Inl (Thrown m) | None \<Rightarrow> Inr (),
       snd (loadPage t (nav (Suc a)) s))"
    using loadPage_fst [of t "nav (Suc a)" s] by (metis prod.collapse)
  show ?thesis
    apply (subst navigate.simps)
    apply (subst lp)
    apply (simp add: navigate_done split: option.splits)
    done
qed

lemma paced_no_goto: "filter is_goto xs = [] \<Longrightarrow> paced prev seen xs"
  by (induction xs arbitrary: prev seen) (auto split: if_splits)

lemma paced_append:
  "paced prev seen (xs @ ys) =
     (paced prev seen xs \<and>
      paced (if xs = [] then prev else Some (last xs)) (seen \<or> filter is_goto xs \<noteq> []) ys)"
  by (induction xs arbitrary: prev seen) auto

lemma well_paced_Nil: "well_paced []"
  by (simp add: well_paced_def)

lemma well_paced_attempt: "filter is_goto rest = [] \<Longrightarrow> well_paced (Goto t # rest)"
  by (auto simp: well_paced_def paced_no_goto)

lemma well_paced_retry:
  assumes "filter is_goto rest = []" "2000 \<le> d" "d \<le> 4000" "well_paced later"
  shows "well_paced ((Goto t # rest) @ [Delay d] @ later)"
  unfolding well_paced_def
proof (intro allI impI)
  fix prev seen
  assume h: "seen \<longrightarrow> backoff_pause prev"
  have 1: "paced prev seen (Goto t # rest)"
    using assms(1) h by (auto simp: paced_no_goto)
  have 2: "paced (Some (Delay d)) True later"
    using assms(2-4) by (simp add: well_paced_def backoff_pause_def)
  show "paced prev seen ((Goto t # rest) @ [Delay d] @ later)"
    using 1 2 by (simp add: paced_append del: paced.simps) (simp add: paced_append)
qed

lemma navigate_trace:
  "\<exists>new. trace (snd (navigate t nav ok a s)) = trace s @ new \<and>
          length (filter is_goto new) \<le> maxAttempts - a \<and> well_paced new"
proof (induction t nav ok a s rule: navigate.induct)
  case (1 t nav ok a s)
  show ?case
  proof (cases "\<not> ok \<and> a < maxAttempts")
    case False
    then have "navigate t nav ok a s = (Inr (), s)"
      by (subst navigate.simps) (simp only: if_False)
    then show ?thesis by (simp add: well_paced_Nil)
  next
    case True
    then have ok: "ok = False" and lt: "a < maxAttempts" by simp_all
    obtain r s1 where lp: "loadPage t (nav (Suc a)) s = (r, s1)"
      by (cases "loadPage t (nav (Suc a)) s")
    obtain rest where rest: "trace s1 = trace s @ Goto t # rest" "filter is_goto rest = []"
      using loadPage_trace [of t "nav (Suc a)" s] lp by auto
    show ?thesis
    proof (cases r)
      case (Inr u)
      then have "navigate t nav ok a s = (Inr (), s1)"
        using True lp by (subst navigate.simps) (simp add: navigate_done)
      then show ?thesis using rest lt by (auto simp: well_paced_attempt)
    next
      case (Inl e)
      then obtain m where thrown: "e = Thrown m"
        using loadPage_fst [of t "nav (Suc a)" s] lp by (auto split: option.splits)
      show ?thesis
      proof (cases "Suc a = maxAttempts")
        case last: True
        then have "snd (navigate t nav ok a s) = s1"
          using True lp Inl thrown by (subst navigate.simps) simp
        then show ?thesis using rest lt by (auto simp: well_paced_attempt)
      next
        case again: False
        let ?s2 = "snd (delay_rand 2000 4000 s1)"
        have nav: "navigate t nav ok a s = navigate t nav ok (Suc a) ?s2"
          using True lp Inl thrown again by (subst navigate.simps) simp
        from "1.IH"(1) [OF True lp [symmetric] Inl thrown again] lp
        obtain new where new: "trace (snd (navigate t nav ok (Suc a) ?s2)) = trace ?s2 @ new"
          "length (filter is_goto new) \<le> maxAttempts - Suc a" "well_paced new"
          by auto
        have tr2: "trace ?s2 = trace s1 @ [Delay (drawn 2000 4000 s1)]"
          by (simp add: delay_rand_eq)
        have "trace (snd (navigate t nav ok a s)) =
                trace s @ ((Goto t # rest) @ [Delay (drawn 2000 4000 s1)] @ new)"
          using nav new(1) tr2 rest(1) by simp
        moreover have "length (filter is_goto ((Goto t # rest) @ [Delay (drawn 2000 4000 s1)] @ new))
                         \<le> maxAttempts - a"
          using new(2) rest(2) lt again by simp
        moreover have "well_paced ((Goto t # rest) @ [Delay (drawn 2000 4000 s1)] @ new)"
          using rest(2) new(3) by (intro well_paced_retry) simp_all
        ultimately show ?thesis by blast
      qed
    qed
  qed
qed


subsection \<open>Runs that do not end the process\<close>

named_theorems survives_intros

lemma survivesD: "survives m \<Longrightarrow> m s = (r, s') \<Longrightarrow> r \<noteq> Inl (Uncaught e)"
  by (auto simp: survives_def dest: spec [of _ s])

lemma survives_ret [survives_intros]: "survives (ret x)"
  by (simp add: survives_def ret_def)

lemma survives_throw [survives_intros]: "survives (throw e)"
  by (simp add: survives_def throw_def)

lemma survives_bnd [survives_intros]:
  "survives m \<Longrightarrow> (\<And>x. survives (g x)) \<Longrightarrow> survives (bnd m g)"
  by (auto simp: survives_def bnd_def split: prod.splits sum.splits)
     (metis fst_conv)+

lemma survives_seq [survives_intros]: "survives m \<Longrightarrow> survives k \<Longrightarrow> survives (seq m k)"
  by (simp add: seq_def survives_bnd)

lemma survives_try_catch [survives_intros]:
  "survives m \<Longrightarrow> (\<And>e. survives (h e)) \<Longrightarrow> survives (try_catch m h)"
  by (auto simp: survives_def try_catch_def split: prod.splits sum.splits failure.splits)
     (metis fst_conv)+

lemma survives_emit [survives_intros]: "survives (emit e)"
  by (simp add: survives_def emit_def)

lemma survives_delay [survives_intros]: "survives (delay ms)"
  by (simp add: survives_def delay_def)

lemma survives_random [survives_intros]: "survives random"
  by (simp add: survives_def random_def split: list.splits)

lemma survives_now [survives_intros]: "survives now"
  by (simp add: survives_def now_def)

lemma survives_if [survives_intros]:
  "survives a \<Longrightarrow> survives b \<Longrightarrow> survives (if c then a else b)"
  by simp

lemma survives_case_option [survives_intros]:
  "survives a \<Longrightarrow> (\<And>x. survives (b x)) \<Longrightarrow> survives (case v of None \<Rightarrow> a | Some x \<Rightarrow> b x)"
  by (cases v) simp_all

lemma survives_case_reply [survives_intros]:
  "(\<And>x. survives (a x)) \<Longrightarrow> (\<And>e. survives (b e)) \<Longrightarrow>
   survives (case v of Gives x \<Rightarrow> a x | Raises e \<Rightarrow> b e)"
  by (cases v) simp_all

lemma survives_case_jsref [survives_intros]:
  "survives a \<Longrightarrow> (\<And>x. survives (b x)) \<Longrightarrow> (\<And>x. survives (c x)) \<Longrightarrow>
   survives (case v of RNull \<Rightarrow> a | RElem x \<Rightarrow> b x | RStr x \<Rightarrow> c x)"
  by (cases v) simp_all

lemma survives_for_each [survives_intros]:
  "(\<And>x. survives (body x)) \<Longrightarrow> survives (for_each xs body)"
  unfolding survives_def
proof (induction xs)
  case Nil
  then show ?case by simp
next
  case (Cons x xs)
  show ?case
  proof (intro allI)
    fix s e
    show "fst (for_each (x # xs) body s) \<noteq> Inl (Uncaught e)"
      using Cons.prems [of x] Cons.IH [OF Cons.prems]
      by (cases "body x s") (auto split: sum.splits dest: spec [of _ s])
  qed
qed

lemma survives_rand [survives_intros]: "survives (rand lo hi)"
  unfolding rand_def by (intro survives_intros)

lemma survives_delay_rand [survives_intros]: "survives (delay_rand lo hi)"
  unfolding delay_rand_def by (intro survives_intros)

lemma survives_ask [survives_intros]: "survives (ask e r)"
  unfolding ask_def by (intro survives_intros)

lemma survives_act [survives_intros]: "survives (act e r)"
  unfolding act_def by (intro survives_intros)

lemma survives_boundingBox [survives_intros]: "survives (boundingBox r)"
  unfolding boundingBox_def by (intro survives_intros)

lemma survives_click [survives_intros]: "survives (click r)"
  unfolding click_def by (intro survives_intros)

lemma survives_tripleClick [survives_intros]: "survives (tripleClick r)"
  unfolding tripleClick_def by (intro survives_intros)

lemma survives_typeText [survives_intros]: "survives (typeText r x)"
  unfolding typeText_def by (intro survives_intros)

lemma survives_humanType [survives_intros]: "survives (humanType r x lo hi)"
  unfolding humanType_def by (intro survives_intros)

lemma survives_humanMove [survives_intros]: "survives (humanMove n)"
  unfolding humanMove_def by (intro survives_intros)

lemma survives_humanScroll [survives_intros]: "survives (humanScroll d n)"
  unfolding humanScroll_def by (intro survives_intros)

lemma survives_humanClick [survives_intros]: "survives (humanClick r)"
  unfolding humanClick_def by (intro survives_intros)

lemma survives_loadCookies [survives_intros]: "survives (loadCookies ck k)"
  unfolding loadCookies_def by (intro survives_intros)

lemma survives_saveCookies [survives_intros]: "survives (saveCookies k e)"
  unfolding saveCookies_def by (intro survives_intros)

lemma survives_recaptchaCheckbox [survives_intros]: "survives (recaptchaCheckbox cs)"
  unfolding recaptchaCheckbox_def by (intro survives_intros)

lemma survives_solveRecaptchaAudio_actor [survives_intros]:
  "survives (solveRecaptchaAudio_actor cs)"
  unfolding solveRecaptchaAudio_actor_def by (intro survives_intros)

lemma survives_downloadAudio [survives_intros]: "settles d \<Longrightarrow> survives (downloadAudio d u)"
  by (cases d) (simp_all add: settles_def survives_def downloadAudio_def seq_def bnd_def
        emit_def ret_def throw_def)

lemma survives_processAudioChallenge [survives_intros]:
  "settles (cs_download cs) \<Longrightarrow> survives (processAudioChallenge cs u)"
  unfolding processAudioChallenge_def by (intro survives_intros)

lemma survives_submitAudioAnswer [survives_intros]: "survives (submitAudioAnswer cs a)"
  unfolding submitAudioAnswer_def by (intro survives_intros)

lemma survives_audioChallenge [survives_intros]:
  "settles (cs_download cs) \<Longrightarrow> survives (audioChallenge cs)"
  unfolding audioChallenge_def by (intro survives_intros)

lemma survives_solveRecaptchaAudio_enh [survives_intros]:
  "settles (cs_download cs) \<Longrightarrow> survives (solveRecaptchaAudio_enh cs)"
  unfolding solveRecaptchaAudio_enh_def by (intro survives_intros)

lemma survives_manualWait [survives_intros]: "survives (manualWait cs start k)"
  unfolding survives_def
proof (intro allI)
  fix s e
  show "fst (manualWait cs start k s) \<noteq> Inl (Uncaught e)"
  proof (induction cs start k s rule: manualWait.induct)
    case (1 cs start k s)
    show ?case
      using "1.IH" by (subst manualWait.simps) (simp add: Let_def)
  qed
qed

lemma survives_solveCaptcha_actor [survives_intros]: "survives (solveCaptcha_actor cs h)"
  unfolding solveCaptcha_actor_def by (intro survives_intros)

lemma survives_solveCaptcha_enh [survives_intros]:
  "settles (cs_download cs) \<Longrightarrow> survives (solveCaptcha_enh cs h)"
  unfolding solveCaptcha_enh_def by (intro survives_intros)

lemma survives_isLoginRequired [survives_intros]: "survives (isLoginRequired p)"
  unfolding isLoginRequired_def Let_def by (intro survives_intros)

lemma survives_fillEmail [survives_intros]: "survives (fillEmail p e)"
  unfolding fillEmail_def by (intro survives_intros)

lemma survives_clickLoginButton [survives_intros]: "survives (clickLoginButton p)"
  unfolding clickLoginButton_def by (intro survives_intros)

lemma survives_awaitLogin [survives_intros]:
  "survives c \<Longrightarrow> survives (awaitLogin p c)"
  unfolding awaitLogin_def by (intro survives_intros)

lemma survives_fillPassword_actor [survives_intros]: "survives (fillPassword_actor p pw)"
  unfolding fillPassword_actor_def by (intro survives_intros)

lemma survives_fillPassword_enh [survives_intros]: "survives (fillPassword_enh p pw)"
  unfolding fillPassword_enh_def by (intro survives_intros)

lemma survives_performFacebookLogin_actor [survives_intros]:
  "survives (performFacebookLogin_actor p e pw)"
  unfolding performFacebookLogin_actor_def by (intro survives_intros)

lemma survives_performFacebookLogin_enh [survives_intros]:
  "settles (cs_download (ls_captcha p)) \<Longrightarrow> survives (performFacebookLogin_enh ev p e pw)"
  unfolding performFacebookLogin_enh_def by (intro survives_intros)

lemma survives_loadPage [survives_intros]: "survives (loadPage t a)"
  unfolding loadPage_def by (intro survives_intros)

lemma survives_navigate [survives_intros]: "survives (navigate t nav ok a)"
  unfolding survives_def
proof (intro allI)
  fix s e
  show "fst (navigate t nav ok a s) \<noteq> Inl (Uncaught e)"
  proof (induction t nav ok a s rule: navigate.induct)
    case (1 t nav ok a s)
    have lp: "loadPage t (nav (Suc a)) s \<noteq> (Inl (Uncaught x), s1)" for x s1
      using survivesD [OF survives_loadPage] by blast
    show ?case
      using "1.IH" lp
      by (subst navigate.simps) (auto split: prod.splits sum.splits failure.splits)
  qed
qed

lemma survives_find_first [survives_intros]: "survives (find_first sels answer)"
  unfolding survives_def
proof (induction sels)
  case Nil
  then show ?case by simp
next
  case (Cons a sels)
  then show ?case
    by (auto simp: Let_def split: reply.splits option.splits)
qed

lemma survives_typeMessage [survives_intros]: "survives (typeMessage e m)"
  unfolding typeMessage_def by (intro survives_intros)

lemma survives_browseLikeHuman [survives_intros]: "survives (browseLikeHuman)"
  unfolding browseLikeHuman_def by (intro survives_intros)

lemma survives_loginIfRequired_actor [survives_intros]:
  "survives (loginIfRequired_actor ev page prof email)"
  unfolding loginIfRequired_actor_def by (intro survives_intros)

lemma survives_loginIfRequired_enh [survives_intros]:
  "settles (cs_download (ls_captcha (ps_login page))) \<Longrightarrow> survives (loginIfRequired_enh ev page prof)"
  unfolding loginIfRequired_enh_def by (intro survives_intros)

lemma survives_reachProfile_actor [survives_intros]:
  "survives (reachProfile_actor ev page prof email)"
  unfolding reachProfile_actor_def by (intro survives_intros)

lemma survives_reachProfile_enh [survives_intros]:
  "settles (cs_download (ls_captcha (ps_login page))) \<Longrightarrow> survives (reachProfile_enh ev page prof)"
  unfolding reachProfile_enh_def by (intro survives_intros)

lemma survives_set_messageSent [survives_intros]: "survives (set_messageSent v)"
  by (simp add: survives_def set_messageSent_def)

lemma survives_set_messageButtonPresent [survives_intros]:
  "survives (set_messageButtonPresent v)"
  by (simp add: survives_def set_messageButtonPresent_def)

lemma survives_succeeded [survives_intros]: "survives (succeeded prof m start)"
  by (simp add: survives_def succeeded_def)

lemma survives_failed [survives_intros]: "survives (failed prof start e)"
  by (simp add: survives_def failed_def)

lemma survives_pressSend [survives_intros]: "survives (pressSend page)"
  unfolding pressSend_def by (intro survives_intros)

lemma survives_composeAndSend [survives_intros]: "survives (composeAndSend page b m)"
  unfolding composeAndSend_def by (intro survives_intros)

lemma survives_messagingInterface_actor [survives_intros]:
  "survives (messagingInterface_actor page m)"
  unfolding messagingInterface_actor_def by (intro survives_intros)

lemma survives_lookupMessageButton_enh [survives_intros]:
  "survives (lookupMessageButton_enh page)"
  by (auto simp: survives_def lookupMessageButton_enh_def Let_def
        split: reply.splits option.splits)

lemma survives_messagingInterface_enh [survives_intros]:
  "survives (messagingInterface_enh page m)"
  unfolding messagingInterface_enh_def by (intro survives_intros)

lemma survives_sendMessageToProfile_actor [survives_intros]:
  "survives (sendMessageToProfile_actor ev page prof m email h)"
  unfolding sendMessageToProfile_actor_def by (intro survives_intros)

lemma survives_sendMessageToProfile_enh [survives_intros]:
  "settles (cs_download (ls_captcha (ps_login page))) \<Longrightarrow> survives (sendMessageToProfile_enh ev page prof m)"
  unfolding sendMessageToProfile_enh_def by (intro survives_intros)

subsection \<open>A page without a message button\<close>

lemma messagingInterface_actor_nobutton:
  "ps_message_button page = Gives None \<Longrightarrow>
   messagingInterface_actor page m s =
     (Inl (Thrown ''Profile unavailable or no messaging option found''),
      s\<lparr>trace := trace s @ [Query messageButtonSelector]\<rparr>)"
  by (simp add: messagingInterface_actor_def try_catch_def bnd_def ask_def seq_def emit_def
        ret_def throw_def)

lemma messagingInterface_enh_nobutton:
  "ps_message_button page = Gives None \<Longrightarrow>
   messagingInterface_enh page m s =
     (Inl (Thrown ''Profile unavailable or no messaging option found''),
      s\<lparr>trace := trace s @ [Query messageButtonSelector]\<rparr>)"
  by (simp add: messagingInterface_enh_def lookupMessageButton_enh_def bnd_def Let_def
        humanClick_def boundingBox_def throw_def)

subsection \<open>The batch never aborts\<close>












subsection \<open>What a run adds to the trace\<close>

named_theorems only_intros

lemma onlyD:
  "only P m \<Longrightarrow> m s = (r, s') \<Longrightarrow> \<exists>new. trace s' = trace s @ new \<and> list_all P new"
  by (auto simp: only_def dest: spec [of _ s])

lemma only_ret [only_intros]: "only P (ret x)"
  by (simp add: only_def ret_def)

lemma only_throw [only_intros]: "only P (throw e)"
  by (simp add: only_def throw_def)

lemma only_uncaught [only_intros]: "only P (uncaught e)"
  by (simp add: only_def uncaught_def)

lemma only_bnd [only_intros]:
  assumes "only P m" "\<And>x. only P (g x)"
  shows "only P (bnd m g)"
  unfolding only_def
proof
  fix s
  obtain r s1 where m: "m s = (r, s1)" by (cases "m s")
  obtain n1 where n1: "trace s1 = trace s @ n1" "list_all P n1"
    using onlyD [OF assms(1) m] by blast
  show "\<exists>new. trace (snd (bnd m g s)) = trace s @ new \<and> list_all P new"
  proof (cases r)
    case (Inl e)
    then show ?thesis using m n1 by (simp add: bnd_def)
  next
    case (Inr x)
    obtain r2 s2 where g: "g x s1 = (r2, s2)" by (cases "g x s1")
    obtain n2 where n2: "trace s2 = trace s1 @ n2" "list_all P n2"
      using onlyD [OF assms(2) g] by blast
    have "trace s2 = trace s @ (n1 @ n2)" "list_all P (n1 @ n2)"
      using n1 n2 by simp_all
    then show ?thesis using Inr m g by (auto simp: bnd_def)
  qed
qed

lemma only_seq [only_intros]: "only P m \<Longrightarrow> only P k \<Longrightarrow> only P (seq m k)"
  by (simp add: seq_def only_bnd)

lemma only_try_catch [only_intros]:
  assumes "only P m" "\<And>e. only P (h e)"
  shows "only P (try_catch m h)"
  unfolding only_def
proof
  fix s
  obtain r s1 where m: "m s = (r, s1)" by (cases "m s")
  obtain n1 where n1: "trace s1 = trace s @ n1" "list_all P n1"
    using onlyD [OF assms(1) m] by blast
  show "\<exists>new. trace (snd (try_catch m h s)) = trace s @ new \<and> list_all P new"
  proof (cases r)
    case (Inr x)
    then show ?thesis using m n1 by (simp add: try_catch_def)
  next
    case (Inl e)
    show ?thesis
    proof (cases e)
      case (Uncaught x)
      then show ?thesis using Inl m n1 by (simp add: try_catch_def)
    next
      case (Thrown x)
      obtain r2 s2 where g: "h x s1 = (r2, s2)" by (cases "h x s1")
      obtain n2 where n2: "trace s2 = trace s1 @ n2" "list_all P n2"
        using onlyD [OF assms(2) g] by blast
      have "trace s2 = trace s @ (n1 @ n2)" "list_all P (n1 @ n2)"
        using n1 n2 by simp_all
      then show ?thesis using Inl Thrown m g by (auto simp: try_catch_def)
    qed
  qed
qed

lemma only_emit [only_intros]: "P e \<Longrightarrow> only P (emit e)"
  by (simp add: only_def emit_def)

lemma only_delay [only_intros]: "P (Delay ms) \<Longrightarrow> only P (delay ms)"
  by (simp add: only_def delay_def)

lemma only_random [only_intros]: "only P random"
  by (simp add: only_def random_eq)

lemma only_now [only_intros]: "only P now"
  by (simp add: only_def now_def)

lemma only_if [only_intros]: "only P a \<Longrightarrow> only P b \<Longrightarrow> only P (if c then a else b)"
  by simp

lemma only_case_option [only_intros]:
  "only P a \<Longrightarrow> (\<And>x. only P (b x)) \<Longrightarrow> only P (case v of None \<Rightarrow> a | Some x \<Rightarrow> b x)"
  by (cases v) simp_all

lemma only_case_reply [only_intros]:
  "(\<And>x. only P (a x)) \<Longrightarrow> (\<And>e. only P (b e)) \<Longrightarrow>
   only P (case v of Gives x \<Rightarrow> a x | Raises e \<Rightarrow> b e)"
  by (cases v) simp_all

lemma only_case_download [only_intros]:
  "only P a \<Longrightarrow> (\<And>x. only P (b x)) \<Longrightarrow> (\<And>x. only P (c x)) \<Longrightarrow>
   only P (case v of Fetched \<Rightarrow> a | Rejected x \<Rightarrow> b x | Unheard x \<Rightarrow> c x)"
  by (cases v) simp_all

lemma only_case_jsref [only_intros]:
  "only P a \<Longrightarrow> (\<And>x. only P (b x)) \<Longrightarrow> (\<And>x. only P (c x)) \<Longrightarrow>
   only P (case v of RNull \<Rightarrow> a | RElem x \<Rightarrow> b x | RStr x \<Rightarrow> c x)"
  by (cases v) simp_all

lemma only_for_each [only_intros]:
  assumes "\<And>x. only P (body x)"
  shows "only P (for_each xs body)"
proof (induction xs)
  case Nil
  then show ?case by (simp add: only_def)
next
  case (Cons x xs)
  have "for_each (x # xs) body = seq (body x) (for_each xs body)"
    by (rule ext) (simp add: seq_def bnd_def split: prod.splits sum.splits)
  then show ?case using assms Cons.IH by (simp add: only_seq)
qed

lemma only_downloadAudio: "P (Download u) \<Longrightarrow> only P (downloadAudio d u)"
  unfolding downloadAudio_def by (intro only_intros)

lemma quiet_simps [simp]:
  "quiet (Goto u)" "quiet Reload" "quiet (Delay d)" "quiet MouseMove" "quiet (BoundingBox x)"
  "quiet (ElemClick x)" "quiet (ElemTripleClick x)" "quiet (ElemType x y)" "quiet (ElemFocus x)"
  "quiet (ElemEvaluate x)" "quiet (KeyPress x)" "quiet (KeyDown x)" "quiet (KeyUp x)"
  "quiet (ScrollBy n)" "quiet (Query x)" "quiet (WaitFor x)" "quiet Frames"
  "quiet (FrameQuery f x)" "quiet (FrameWaitFor f x)" "quiet (FrameEval f x)" "quiet AwaitRace"
  "quiet ReadCookies" "quiet SetCookie" "quiet (LoadStored x)" "quiet (SaveStored x)"
  "quiet (Download x)" "quiet (Evaluate x) = (x \<noteq> ''stillPresent'')"
  by (simp_all add: quiet_def)

lemma quiet_rand [only_intros]: "only quiet (rand lo hi)"
  unfolding rand_def by (intro only_intros)

lemma quiet_delay_rand [only_intros]: "only quiet (delay_rand lo hi)"
  unfolding delay_rand_def by (intro only_intros) simp

lemma quiet_ask [only_intros]: "quiet e \<Longrightarrow> only quiet (ask e r)"
  unfolding ask_def by (intro only_intros)

lemma quiet_act [only_intros]: "quiet e \<Longrightarrow> only quiet (act e r)"
  unfolding act_def by (intro only_intros)

lemma quiet_boundingBox [only_intros]: "only quiet (boundingBox r)"
  unfolding boundingBox_def by (intro only_intros) simp

lemma quiet_click [only_intros]: "only quiet (click r)"
  unfolding click_def by (intro only_intros) simp

lemma quiet_tripleClick [only_intros]: "only quiet (tripleClick r)"
  unfolding tripleClick_def by (intro only_intros) simp

lemma quiet_typeText [only_intros]: "only quiet (typeText r x)"
  unfolding typeText_def by (intro only_intros) simp

lemma quiet_humanType [only_intros]: "only quiet (humanType r x lo hi)"
  unfolding humanType_def by (intro only_intros)

lemma quiet_humanMove [only_intros]: "only quiet (humanMove n)"
  unfolding humanMove_def by (intro only_intros) simp

lemma quiet_humanScroll [only_intros]: "only quiet (humanScroll d n)"
  unfolding humanScroll_def by (intro only_intros) simp

lemma quiet_humanClick [only_intros]: "only quiet (humanClick r)"
  unfolding humanClick_def by (intro only_intros)

lemma quiet_loadCookies [only_intros]: "only quiet (loadCookies ck k)"
  unfolding loadCookies_def by (intro only_intros) simp_all

lemma quiet_saveCookies [only_intros]: "only quiet (saveCookies k e)"
  unfolding saveCookies_def by (intro only_intros) simp_all

lemma quiet_recaptchaCheckbox [only_intros]: "only quiet (recaptchaCheckbox cs)"
  unfolding recaptchaCheckbox_def by (intro only_intros) simp_all

lemma quiet_processAudioChallenge [only_intros]: "only quiet (processAudioChallenge cs u)"
  unfolding processAudioChallenge_def by (intro only_intros only_downloadAudio) simp_all

lemma quiet_submitAudioAnswer [only_intros]: "only quiet (submitAudioAnswer cs a)"
  unfolding submitAudioAnswer_def by (intro only_intros) simp_all

lemma quiet_audioChallenge [only_intros]: "only quiet (audioChallenge cs)"
  unfolding audioChallenge_def by (intro only_intros) simp_all

lemma quiet_solveRecaptchaAudio_enh [only_intros]: "only quiet (solveRecaptchaAudio_enh cs)"
  unfolding solveRecaptchaAudio_enh_def by (intro only_intros)

lemma quiet_solveRecaptchaAudio_actor [only_intros]: "only quiet (solveRecaptchaAudio_actor cs)"
  unfolding solveRecaptchaAudio_actor_def by (intro only_intros)

lemma quiet_solveCaptcha_enh_headless [only_intros]:
  "only quiet (solveCaptcha_enh cs (Some ''true''))"
  unfolding solveCaptcha_enh_def
  apply (rule only_seq)
   apply (rule only_emit, simp)
  apply (rule only_if, rule only_ret)
  apply (rule only_bnd, rule quiet_solveRecaptchaAudio_enh)
  apply (simp add: only_ret)
  done

lemma quiet_solveCaptcha_actor_headless [only_intros]:
  "truthy headless \<Longrightarrow> only quiet (solveCaptcha_actor cs headless)"
  unfolding solveCaptcha_actor_def
  apply (rule only_seq)
   apply (rule only_emit, simp)
  apply (rule only_if, rule only_ret)
  apply (rule only_bnd, rule quiet_solveRecaptchaAudio_actor)
  apply (simp add: only_ret)
  done

lemma quiet_isLoginRequired [only_intros]: "only quiet (isLoginRequired p)"
  unfolding isLoginRequired_def Let_def by (intro only_intros) simp_all

lemma quiet_fillEmail [only_intros]: "only quiet (fillEmail p e)"
  unfolding fillEmail_def by (intro only_intros) simp_all

lemma quiet_clickLoginButton [only_intros]: "only quiet (clickLoginButton p)"
  unfolding clickLoginButton_def by (intro only_intros) simp_all

lemma quiet_awaitLogin [only_intros]: "only quiet c \<Longrightarrow> only quiet (awaitLogin p c)"
  unfolding awaitLogin_def by (intro only_intros) simp_all

lemma quiet_fillPassword_enh [only_intros]: "only quiet (fillPassword_enh p pw)"
  unfolding fillPassword_enh_def by (intro only_intros) simp_all

lemma quiet_performFacebookLogin_enh [only_intros]:
  "HEADLESS ev = Some ''true'' \<Longrightarrow> only quiet (performFacebookLogin_enh ev p e pw)"
  unfolding performFacebookLogin_enh_def by (simp, intro only_intros)

lemma only_seq_fails:
  assumes "only P m" "\<And>s. \<exists>e. fst (m s) = Inl e"
  shows "only P (seq m k)"
proof -
  have "seq m k s = (case m s of (Inl e, s') \<Rightarrow> (Inl e, s') | (Inr x, s') \<Rightarrow> throw [] s')" for s
    using assms(2) [of s] by (auto simp: seq_def bnd_def split: prod.splits sum.splits)
  then have "seq m k = seq m (throw [])"
    by (intro ext) (simp add: seq_def bnd_def)
  then show ?thesis using assms(1) by (simp add: only_seq only_throw)
qed

lemma humanType_selector:
  "humanType (RStr x) t lo hi s = (Inl (Thrown ''elementHandle.click is not a function''), s)"
  by (simp add: humanType_def tripleClick_def throw_def seq_def bnd_def)

lemma fillPassword_actor_fails: "\<exists>e. fst (fillPassword_actor page password s) = Inl e"
proof (cases "ls_password_field page")
  case None
  then show ?thesis by (simp add: fillPassword_actor_def seq_def bnd_def emit_def throw_def)
next
  case (Some f)
  obtain r s1 where h: "humanClick (RElem f) (s\<lparr>trace := trace s @ [Query passwordSelector]\<rparr>) = (r, s1)"
    by (cases "humanClick (RElem f) (s\<lparr>trace := trace s @ [Query passwordSelector]\<rparr>)")
  show ?thesis
    using Some h
    by (cases r)
       (simp_all add: fillPassword_actor_def seq_def bnd_def emit_def delay_rand_eq
          humanType_selector)
qed

lemma quiet_fillPassword_actor: "only quiet (fillPassword_actor page password)"
  unfolding fillPassword_actor_def by (intro only_intros) simp_all

lemma quiet_performFacebookLogin_actor [only_intros]:
  "only quiet (performFacebookLogin_actor p e pw)"
proof -
  show ?thesis
    unfolding performFacebookLogin_actor_def
    by (intro only_seq quiet_fillEmail only_seq_fails quiet_fillPassword_actor
          fillPassword_actor_fails)
qed

lemma quiet_loadPage [only_intros]: "only quiet (loadPage t a)"
  unfolding loadPage_def by (intro only_intros) simp_all

lemma quiet_navigate [only_intros]: "only quiet (navigate t nav ok a)"
  unfolding only_def
proof
  fix s
  show "\<exists>new. trace (snd (navigate t nav ok a s)) = trace s @ new \<and> list_all quiet new"
  proof (induction t nav ok a s rule: navigate.induct)
    case (1 t nav ok a s)
    show ?case
    proof (cases "\<not> ok \<and> a < maxAttempts")
      case False
      then have "navigate t nav ok a s = (Inr (), s)"
        by (subst navigate.simps) (simp only: if_False)
      then show ?thesis by simp
    next
      case True
      obtain r s1 where lp: "loadPage t (nav (Suc a)) s = (r, s1)"
        by (cases "loadPage t (nav (Suc a)) s")
      obtain n1 where n1: "trace s1 = trace s @ n1" "list_all quiet n1"
        using onlyD [OF quiet_loadPage lp] by blast
      show ?thesis
      proof (cases r)
        case (Inr u)
        then have "navigate t nav ok a s = (Inr (), s1)"
          using True lp by (subst navigate.simps) (simp add: navigate_done)
        then show ?thesis using n1 by simp
      next
        case (Inl e)
        then obtain m where thrown: "e = Thrown m"
          using loadPage_fst [of t "nav (Suc a)" s] lp by (auto split: option.splits)
        show ?thesis
        proof (cases "Suc a = maxAttempts")
          case True
          then have "snd (navigate t nav ok a s) = s1"
            using \<open>\<not> ok \<and> a < maxAttempts\<close> lp Inl thrown by (subst navigate.simps) simp
          then show ?thesis using n1 by simp
        next
          case False
          let ?s2 = "snd (delay_rand 2000 4000 s1)"
          have nav: "navigate t nav ok a s = navigate t nav ok (Suc a) ?s2"
            using True lp Inl thrown False by (subst navigate.simps) simp
          from "1.IH"(1) [OF True lp [symmetric] Inl thrown False]
          obtain n2 where n2: "trace (snd (navigate t nav ok (Suc a) ?s2)) = trace ?s2 @ n2"
            "list_all quiet n2" by blast
          have "trace ?s2 = trace s1 @ [Delay (drawn 2000 4000 s1)]"
            by (simp add: delay_rand_eq)
          then have "trace (snd (navigate t nav ok a s)) =
              trace s @ (n1 @ [Delay (drawn 2000 4000 s1)] @ n2)"
            using nav n1 n2 by simp
          moreover have "list_all quiet (n1 @ [Delay (drawn 2000 4000 s1)] @ n2)"
            using n1 n2 by simp
          ultimately show ?thesis by blast
        qed
      qed
    qed
  qed
qed

lemma quiet_find_first [only_intros]: "only quiet (find_first sels answer)"
  unfolding only_def
proof (induction sels)
  case Nil
  then show ?case by simp
next
  case (Cons a sels)
  show ?case
  proof
    fix s :: st
    let ?s1 = "s\<lparr>trace := trace s @ [Query a]\<rparr>"
    obtain new where new: "trace (snd (find_first sels answer ?s1)) = trace ?s1 @ new"
      "list_all quiet new"
      using Cons by blast
    then have "trace (snd (find_first sels answer ?s1)) = trace s @ (Query a # new)"
      "list_all quiet (Query a # new)" by simp_all
    then show "\<exists>new. trace (snd (find_first (a # sels) answer s)) = trace s @ new \<and>
                     list_all quiet new"
      by (auto simp: Let_def split: reply.splits option.splits)
  qed
qed

lemma quiet_set_messageSent [only_intros]: "only P (set_messageSent v)"
  by (simp add: only_def set_messageSent_def)

lemma quiet_set_messageButtonPresent [only_intros]: "only P (set_messageButtonPresent v)"
  by (simp add: only_def set_messageButtonPresent_def)

lemma quiet_typeMessage [only_intros]: "only quiet (typeMessage e m)"
  unfolding typeMessage_def by (intro only_intros) simp_all

lemma quiet_pressSend [only_intros]: "only quiet (pressSend page)"
  unfolding pressSend_def by (intro only_intros) simp_all

lemma quiet_composeAndSend [only_intros]: "only quiet (composeAndSend page b m)"
  unfolding composeAndSend_def by (intro only_intros) simp_all

lemma quiet_messagingInterface_actor [only_intros]:
  "only quiet (messagingInterface_actor page m)"
  unfolding messagingInterface_actor_def by (intro only_intros) simp_all

lemma quiet_lookupMessageButton_enh [only_intros]: "only quiet (lookupMessageButton_enh page)"
  unfolding only_def
proof
  fix s :: st
  let ?s1 = "s\<lparr>trace := trace s @ [Query messageButtonSelector]\<rparr>"
  have "\<exists>new. trace (snd (humanClick r ?s1)) = trace s @ new \<and> list_all quiet new" for r
  proof -
    obtain new where "trace (snd (humanClick r ?s1)) = trace ?s1 @ new" "list_all quiet new"
      using onlyD [OF quiet_humanClick, of r ?s1] by (metis prod.collapse)
    then have "trace (snd (humanClick r ?s1)) = trace s @ (Query messageButtonSelector # new)"
      "list_all quiet (Query messageButtonSelector # new)" by simp_all
    then show ?thesis by blast
  qed
  then show "\<exists>new. trace (snd (lookupMessageButton_enh page s)) = trace s @ new \<and>
                  list_all quiet new"
    by (auto simp: lookupMessageButton_enh_def Let_def split: reply.splits option.splits)
qed

lemma quiet_messagingInterface_enh [only_intros]:
  "only quiet (messagingInterface_enh page m)"
  unfolding messagingInterface_enh_def by (intro only_intros)

lemma quiet_browseLikeHuman [only_intros]: "only quiet browseLikeHuman"
  unfolding browseLikeHuman_def by (intro only_intros)

lemma quiet_loginIfRequired_actor [only_intros]:
  "only quiet (loginIfRequired_actor ev page prof email)"
  unfolding loginIfRequired_actor_def by (intro only_intros) simp_all

lemma quiet_loginIfRequired_enh [only_intros]:
  "HEADLESS ev = Some ''true'' \<Longrightarrow> only quiet (loginIfRequired_enh ev page prof)"
  unfolding loginIfRequired_enh_def by (intro only_intros) simp_all

lemma quiet_reachProfile_actor [only_intros]:
  "only quiet (reachProfile_actor ev page prof email)"
  unfolding reachProfile_actor_def by (intro only_intros)

lemma quiet_reachProfile_enh [only_intros]:
  "HEADLESS ev = Some ''true'' \<Longrightarrow> only quiet (reachProfile_enh ev page prof)"
  unfolding reachProfile_enh_def by (intro only_intros) simp_all

lemma quiet_succeeded [only_intros]: "only P (succeeded prof m start)"
  by (simp add: only_def succeeded_def)

lemma quiet_failed [only_intros]: "only P (failed prof start e)"
  by (simp add: only_def failed_def)

lemma quiet_sendMessageToProfile_actor:
  "only quiet (sendMessageToProfile_actor ev page prof m email h)"
  unfolding sendMessageToProfile_actor_def by (intro only_intros)

lemma quiet_sendMessageToProfile_enh:
  "HEADLESS ev = Some ''true'' \<Longrightarrow> only quiet (sendMessageToProfile_enh ev page prof m)"
  unfolding sendMessageToProfile_enh_def by (intro only_intros)

lemma only_quiet_no_poll: "only quiet m \<Longrightarrow> filter is_poll (added s (snd (m s))) = []"
proof -
  assume "only quiet m"
  then obtain new where "trace (snd (m s)) = trace s @ new" "list_all quiet new"
    by (auto simp: only_def dest: spec [of _ s])
  then show ?thesis
    by (simp add: added_def quiet_def filter_empty_conv list_all_iff)
qed

subsection \<open>The challenge strategies\<close>

lemma bnd_answer: "bnd m (\<lambda>b. if b then ret True else ret False) = m"
  by (rule ext) (auto simp: bnd_def ret_def split: prod.splits sum.splits)

lemma solveCaptcha_actor_headless:
  assumes "truthy headless"
  shows "solveCaptcha_actor cs headless s =
           (if cs_present cs then solveRecaptchaAudio_actor cs (detected s)
            else (Inr True, detected s))"
  using assms
  by (simp add: solveCaptcha_actor_def bnd_answer)
     (simp add: seq_def bnd_def emit_def ret_def detected_def)

lemma solveCaptcha_enh_headless:
  "solveCaptcha_enh cs (Some ''true'') s =
     (if cs_present cs then solveRecaptchaAudio_enh cs (detected s)
      else (Inr True, detected s))"
  by (simp add: solveCaptcha_enh_def bnd_answer)
     (simp add: seq_def bnd_def emit_def ret_def detected_def)

lemmas checkbox_defs = checkbox_resolves_def recaptchaCheckbox_def seq_def bnd_def act_def
  emit_def ret_def throw_def try_catch_def delay_rand_eq delay_def click_def added_def

lemma solveRecaptchaAudio_actor_result:
  "fst (solveRecaptchaAudio_actor cs s) = Inr (checkbox_resolves cs)"
  by (auto simp: solveRecaptchaAudio_actor_def checkbox_defs split: option.splits if_splits)

lemma processAudioChallenge_result:
  "fst (processAudioChallenge cs audioUrl s) =
     (case cs_download cs of
        Fetched \<Rightarrow> Inr (Some (numbers ! (next_draw s mod 10)))
      | Rejected e \<Rightarrow> Inr None
      | Unheard e \<Rightarrow> Inl (Uncaught e))"
  by (simp add: processAudioChallenge_def downloadAudio_def try_catch_def seq_def bnd_def
        emit_def ret_def throw_def uncaught_def random_eq delay_rand_eq numbers_def
        next_draw_def split: download.splits)

lemma number_word: "numbers ! (d mod 10) \<in> set numbers"
proof -
  have "d mod 10 < length numbers" by (simp add: numbers_def)
  then show ?thesis by (rule nth_mem)
qed

lemma processAudioChallenge_word:
  assumes "processAudioChallenge cs audioUrl s = (Inr (Some w), s')"
  shows "w \<in> set numbers"
  using processAudioChallenge_result [of cs audioUrl s] assms number_word [of "next_draw s"]
  by (auto split: download.splits)

lemma only_bnd_value:
  assumes "only P m" "\<And>x. Q x \<Longrightarrow> only P (g x)" "\<And>s x s'. m s = (Inr x, s') \<Longrightarrow> Q x"
  shows "only P (bnd m g)"
proof -
  have "bnd m g = bnd m (\<lambda>x. if Q x then g x else throw [])"
    using assms(3) by (intro ext) (auto simp: bnd_def split: prod.splits sum.splits)
  then show ?thesis
    using assms(1,2) by (simp add: only_bnd only_throw)
qed

lemma only_delay_rand: "(\<And>d. P (Delay d)) \<Longrightarrow> only P (delay_rand lo hi)"
  by (simp add: only_def delay_rand_eq)

lemma only_click: "(\<And>x. P (ElemClick x)) \<Longrightarrow> only P (click r)"
  unfolding click_def act_def by (intro only_intros) simp_all

lemma only_typeText: "(\<And>x. P (ElemType x t)) \<Longrightarrow> only P (typeText r t)"
  unfolding typeText_def act_def by (intro only_intros) simp_all

lemma only_act: "P e \<Longrightarrow> only P (act e r)"
  unfolding act_def by (intro only_intros) simp_all

lemma only_ask: "P e \<Longrightarrow> only P (ask e r)"
  unfolding ask_def by (intro only_intros) simp_all

lemma types_words_recaptchaCheckbox: "only types_number_word (recaptchaCheckbox cs)"
  unfolding recaptchaCheckbox_def
  by (intro only_intros only_delay_rand only_click only_act) simp_all

lemma types_words_processAudioChallenge:
  "only types_number_word (processAudioChallenge cs u)"
  unfolding processAudioChallenge_def
  by (intro only_intros only_delay_rand only_downloadAudio) simp_all

lemma types_words_submitAudioAnswer:
  "w \<in> set numbers \<Longrightarrow> only types_number_word (submitAudioAnswer cs w)"
  unfolding submitAudioAnswer_def
  by (intro only_intros only_delay_rand only_click only_typeText) simp_all

lemma types_words_audioChallenge: "only types_number_word (audioChallenge cs)"
  unfolding audioChallenge_def
  apply (rule only_seq, rule only_delay_rand, simp)
  apply (rule only_seq, rule only_emit, simp)
  apply (rule only_seq)
   apply (rule only_case_option, rule only_ret)
   apply (rule only_seq, rule only_click, simp, rule only_delay_rand, simp)
  apply (rule only_seq, rule only_act, simp)
  apply (rule only_bnd, rule only_ask, simp)
  apply (rule only_bnd_value
      [where Q = "\<lambda>x. case x of None \<Rightarrow> True | Some w \<Rightarrow> w \<in> set numbers"])
    apply (rule types_words_processAudioChallenge)
   apply (auto split: option.splits intro: only_ret types_words_submitAudioAnswer)[1]
  apply (auto split: option.splits dest: processAudioChallenge_word)
  done

lemma types_words_solveRecaptchaAudio_enh:
  "only types_number_word (solveRecaptchaAudio_enh cs)"
  unfolding solveRecaptchaAudio_enh_def
  by (intro only_try_catch only_bnd only_if only_ret types_words_recaptchaCheckbox
        types_words_audioChallenge)


subsection \<open>A challenge whose audio path is open\<close>

lemma number_word_nonempty: "numbers ! (d mod length numbers) \<noteq> []"
proof -
  have "numbers ! (d mod length numbers) \<in> set numbers"
    by (rule nth_mem) (simp add: numbers_def)
  then show ?thesis by (auto simp: numbers_def)
qed

lemma added_later:
  "trace s1 = trace s @ n1 \<Longrightarrow> trace s2 = trace s1 @ n2 \<Longrightarrow> e \<in> set (added s1 s2) \<Longrightarrow>
   e \<in> set (added s s2)"
  by (simp add: added_def)

lemma audioChallenge_run:
  assumes "audio_path_open cs audioInput verifyButton"
  shows "fst (audioChallenge cs s) = Inr True \<and>
         (\<exists>w. ElemType (el_sel audioInput) w \<in> set (added s (snd (audioChallenge cs s)))) \<and>
         ElemClick (el_sel verifyButton) \<in> set (added s (snd (audioChallenge cs s)))"
proof -
  obtain link where link: "cs_audio_link cs = Gives link"
    using assms by (auto simp: audio_path_open_def split: reply.splits)
  show ?thesis
    using assms link
    by (cases "cs_audio_button cs")
       (simp_all add: audio_path_open_def audioChallenge_def
        processAudioChallenge_def downloadAudio_def submitAudioAnswer_def typeText_def
        ask_def random_eq number_word_nonempty seq_def bnd_def act_def
        emit_def ret_def throw_def try_catch_def delay_rand_eq delay_def click_def added_def
        ex_disj_distrib)
qed

lemma recaptchaCheckbox_run:
  assumes "audio_path_open cs audioInput verifyButton"
  shows "fst (recaptchaCheckbox cs s) = Inr True"
  using assms
  by (cases "cs_checkbox cs"; cases "cs_anchor_frame cs")
     (simp_all add: audio_path_open_def recaptchaCheckbox_def seq_def bnd_def act_def
        emit_def ret_def throw_def delay_rand_eq delay_def click_def)

lemma audio_path_open_run:
  assumes "audio_path_open cs audioInput verifyButton"
  shows "fst (solveRecaptchaAudio_enh cs s) = Inr True \<and>
         (\<exists>w. ElemType (el_sel audioInput) w \<in>
                set (added s (snd (solveRecaptchaAudio_enh cs s)))) \<and>
         ElemClick (el_sel verifyButton) \<in> set (added s (snd (solveRecaptchaAudio_enh cs s)))"
proof -
  obtain s1 where c: "recaptchaCheckbox cs s = (Inr True, s1)"
    using recaptchaCheckbox_run [OF assms, of s] by (cases "recaptchaCheckbox cs s") simp
  obtain s2 where a: "audioChallenge cs s1 = (Inr True, s2)"
    using audioChallenge_run [OF assms, of s1] by (cases "audioChallenge cs s1") simp
  have run: "solveRecaptchaAudio_enh cs s = (Inr True, s2)"
    using c a by (simp add: solveRecaptchaAudio_enh_def try_catch_def bnd_def)
  obtain n1 where n1: "trace s1 = trace s @ n1"
    using onlyD [OF quiet_recaptchaCheckbox c] by blast
  obtain n2 where n2: "trace s2 = trace s1 @ n2"
    using onlyD [OF quiet_audioChallenge a] by blast
  obtain w where w: "ElemType (el_sel audioInput) w \<in> set (added s1 s2)"
    and v: "ElemClick (el_sel verifyButton) \<in> set (added s1 s2)"
    using audioChallenge_run [OF assms, of s1] a by auto
  show ?thesis
    using run added_later [OF n1 n2 w] added_later [OF n1 n2 v] by auto
qed

subsection \<open>Running the model on a concrete script\<close>

lemmas io_defs = ret_def throw_def uncaught_def bnd_def seq_def try_catch_def emit_def ask_def act_def
  random_def rand_def delay_def delay_rand_def now_def

lemmas human_defs = boundingBox_def click_def tripleClick_def typeText_def humanType_def
  humanMove_def humanScroll_def humanClick_def

lemmas cookie_defs = loadCookies_def saveCookies_def cookieKey_actor_def cookieFilePathFor_def
  safe_name_def safe_char_def

lemmas captcha_defs = recaptchaCheckbox_def solveRecaptchaAudio_actor_def
  downloadAudio_def processAudioChallenge_def submitAudioAnswer_def audioChallenge_def solveRecaptchaAudio_enh_def
  solveCaptcha_actor_def solveCaptcha_enh_def manualWait.simps maxWait_def numbers_def

lemmas login_defs = isLoginRequired_def fillEmail_def clickLoginButton_def awaitLogin_def
  fillPassword_actor_def fillPassword_enh_def
  performFacebookLogin_actor_def performFacebookLogin_enh_def emailSelector_def
  passwordSelector_def loginButtonSelector_def

lemmas send_defs = navigate.simps loadPage_def maxAttempts_def messageButtonSelector_def
  messageInputSelectors_def sendSelectors_def set_messageButtonPresent_def set_messageSent_def
  typeMessage_def pressSend_def composeAndSend_def messagingInterface_actor_def
  lookupMessageButton_enh_def messagingInterface_enh_def env_or_empty_def
  loginIfRequired_actor_def loginIfRequired_enh_def browseLikeHuman_def reachProfile_actor_def
  reachProfile_enh_def preview_def succeeded_def failed_def sendMessageToProfile_actor_def
  sendMessageToProfile_enh_def

lemmas fixture_defs = elem_def state0_def profile_page_def login_page_def no_cookies_def
  captcha_stuck_def captcha_audio_def captcha_checkbox_def login_form_def ready_page_def
  env0_def home0_def p1_def p2_def nobutton_page_def boxless_page_def login_challenged_def
  login_first_page_def

lemmas run_defs = io_defs human_defs cookie_defs captcha_defs login_defs send_defs fixture_defs
  Let_def upt_rec added_def


section \<open>The claims\<close>

subsection \<open>C1: one outcome per profile, in order\<close>




text \<open>
  The second proviso is needed as well. A profile that asks for a login, followed by a
  challenge whose audio path is open but whose download meets a failed connection: the
  request has no listener for the error, the process ends, and no outcome is recorded.
\<close>

lemma unheard_request_error_ends_batch:
  "(let r = processAll env0 home0
              (\<lambda>i. login_first_page\<lparr>ps_login := login_challenged\<lparr>ls_captcha :=
                      captcha_audio\<lparr>cs_download := Unheard ''ECONNREFUSED''\<rparr>\<rparr>\<rparr>)
              [p1, p2] ''hi'' state0
    in fst r = Inl (Uncaught ''ECONNREFUSED'') \<and> sink (snd r) = [] \<and>
       Goto ''u2'' \<notin> set (trace (snd r)))"
  by code_simp

subsection \<open>C2: a successful outcome has its message sent\<close>




subsection \<open>C3: navigation retries are bounded and paced\<close>

text \<open>
  Claim C3. For every call of the navigation loop (every target, every script of what the
  attempts meet, every state): the loop makes at most \<open>maxAttempts = 3\<close> page loads; every
  page load after the first has a pause of 2000 to 4000 ms as its immediate predecessor;
  and the loop throws exactly when all three attempts fail, with an error that carries the
  message of the third failure.
\<close>

theorem navigate_bounded_retry:
  "(let r = navigate target nav False 0 s;
        new = added s (snd r)
    in length (filter is_goto new) \<le> maxAttempts \<and>
       paced None False new \<and>
       fst r =
         (case (attempt_failure (nav 1), attempt_failure (nav 2), attempt_failure (nav 3)) of
            (Some m1, Some m2, Some m3) \<Rightarrow>
              Inl (Thrown (''Failed to load profile after 3 attempts: '' @ m3))
          | _ \<Rightarrow> Inr ()))"
proof -
  obtain new where new: "trace (snd (navigate target nav False 0 s)) = trace s @ new"
    "length (filter is_goto new) \<le> maxAttempts - 0" "well_paced new"
    using navigate_trace [of target nav False 0 s] by blast
  have res: "fst (navigate target nav False 0 s) =
         (case (attempt_failure (nav 1), attempt_failure (nav 2), attempt_failure (nav 3)) of
            (Some m1, Some m2, Some m3) \<Rightarrow>
              Inl (Thrown (''Failed to load profile after 3 attempts: '' @ m3))
          | _ \<Rightarrow> Inr ())"
    by (simp add: navigate_step maxAttempts_def numeral_3_eq_3 numeral_2_eq_2
          split: option.splits)
  have "paced None False new" using new(3) by (simp add: well_paced_def)
  then show ?thesis using new res by (simp add: Let_def added_def)
qed


subsection \<open>C4: a profile without a message button\<close>

text \<open>
  Claim C4. For every profile whose page is reached (cookies, navigation, login where one
  is asked for, and scrolling go through without an error) and whose primary message-button
  selector matches nothing, \<^verbatim>\<open>sendMessageToProfile\<close> returns the outcome with
  \<open>success = false\<close>, the error \<^verbatim>\<open>"Profile unavailable or no messaging option found"\<close>,
  \<open>messageButtonPresent = "No"\<close> and \<open>messageSent = "No"\<close>; and the lookup is not tried
  again: after the one query for the button the function does nothing more on the page.
  Both files.
\<close>

theorem no_message_button:
  assumes "ps_message_button page = Gives None"
  shows "(fst (reachProfile_actor ev page prof email (entry s)) = Inr () \<longrightarrow>
          (let s1 = snd (reachProfile_actor ev page prof email (entry s))
           in sendMessageToProfile_actor ev page prof m email h s =
                (Inr (unavailable prof (clock s1 - clock s)),
                 s1\<lparr>trace := trace s1 @ [Query messageButtonSelector]\<rparr>))) \<and>
         (fst (reachProfile_enh ev page prof (entry s)) = Inr () \<longrightarrow>
          (let s1 = snd (reachProfile_enh ev page prof (entry s))
           in sendMessageToProfile_enh ev page prof m s =
                (Inr (unavailable prof (clock s1 - clock s)),
                 s1\<lparr>trace := trace s1 @ [Query messageButtonSelector]\<rparr>)))"
proof (intro conjI impI)
  assume r: "fst (reachProfile_actor ev page prof email (entry s)) = Inr ()"
  obtain s1 where run: "reachProfile_actor ev page prof email (entry s) = (Inr (), s1)"
    using r by (cases "reachProfile_actor ev page prof email (entry s)") auto
  have "v_messageButtonPresent s1 = ''No''" "v_messageSent s1 = ''No''"
    using keepsD [OF keeps_reachProfile_actor [OF browser_free_v_messageButtonPresent] run]
          keepsD [OF keeps_reachProfile_actor [OF browser_free_v_messageSent] run]
    by (simp_all add: entry_def)
  then show "let s1 = snd (reachProfile_actor ev page prof email (entry s))
     in sendMessageToProfile_actor ev page prof m email h s =
          (Inr (unavailable prof (clock s1 - clock s)),
           s1\<lparr>trace := trace s1 @ [Query messageButtonSelector]\<rparr>)"
    using run
    by (simp add: send_actor_unfold entry_def [symmetric] try_catch_def seq_def bnd_def
          messagingInterface_actor_nobutton [OF assms] failed_def unavailable_def)
next
  assume r: "fst (reachProfile_enh ev page prof (entry s)) = Inr ()"
  obtain s1 where run: "reachProfile_enh ev page prof (entry s) = (Inr (), s1)"
    using r by (cases "reachProfile_enh ev page prof (entry s)") auto
  have "v_messageButtonPresent s1 = ''No''" "v_messageSent s1 = ''No''"
    using keepsD [OF keeps_reachProfile_enh [OF browser_free_v_messageButtonPresent] run]
          keepsD [OF keeps_reachProfile_enh [OF browser_free_v_messageSent] run]
    by (simp_all add: entry_def)
  then show "let s1 = snd (reachProfile_enh ev page prof (entry s))
     in sendMessageToProfile_enh ev page prof m s =
          (Inr (unavailable prof (clock s1 - clock s)),
           s1\<lparr>trace := trace s1 @ [Query messageButtonSelector]\<rparr>)"
    using run
    by (simp add: send_enh_unfold entry_def [symmetric] try_catch_def seq_def bnd_def
          messagingInterface_enh_nobutton [OF assms] failed_def unavailable_def)
qed

text \<open>The second scenario of the specification.\<close>

theorem no_message_button_witness:
  "ps_message_button nobutton_page = Gives None \<and>
   fst (reachProfile_enh env0 nobutton_page p1 (entry state0)) = Inr () \<and>
   fst (sendMessageToProfile_enh env0 nobutton_page p1 ''hi'' state0) =
     Inr \<lparr>success = False, profileId = ''p1'', url = ''u1'',
          error = Some ''Profile unavailable or no messaging option found'',
          durationMs = Some 5300, message = None, messageButtonPresent = Some ''No'',
          messageSent = Some ''No'', timestamp = None\<rparr>"
proof -
  have b: "ps_message_button nobutton_page = Gives None"
    by (simp add: nobutton_page_def)
  have rc: "let r = reachProfile_enh env0 nobutton_page p1 (entry state0)
            in fst r = Inr () \<and> clock (snd r) = 5300"
    by code_simp
  have r: "fst (reachProfile_enh env0 nobutton_page p1 (entry state0)) = Inr ()"
    using rc by (simp add: Let_def)
  have c: "clock (snd (reachProfile_enh env0 nobutton_page p1 (entry state0))) = 5300"
    using rc by (simp add: Let_def)
  have "fst (sendMessageToProfile_enh env0 nobutton_page p1 ''hi'' state0) =
      Inr (unavailable p1 (5300 - clock state0))"
    using no_message_button [OF b, of env0 p1 "''a@x.com''" state0 "''hi''" "JBool True"] r c
    by (simp add: Let_def)
  then show ?thesis
    using b r by (simp add: unavailable_def p1_def state0_def)
qed


subsection \<open>C5: no manual window in a headless run\<close>

text \<open>
  In \<^verbatim>\<open>messenger.js\<close> the step ``Fill password'' always throws: with no password field it
  throws ``Password field not found'', and with one \<^verbatim>\<open>humanType\<close> is handed the selector
  string. So its \<^verbatim>\<open>performFacebookLogin\<close> never gets as far as its call
  \<^verbatim>\<open>solveCaptcha(page)\<close>, the only call of the challenge chain in that file.
\<close>

lemma performFacebookLogin_actor_fails:
  "\<exists>e. fst (performFacebookLogin_actor page email password s) = Inl e"
proof -
  obtain r s1 where f: "fillEmail page email s = (r, s1)" by (cases "fillEmail page email s")
  show ?thesis
  proof (cases r)
    case (Inl e)
    then show ?thesis using f by (simp add: performFacebookLogin_actor_def seq_def bnd_def)
  next
    case (Inr u)
    obtain e where "fst (fillPassword_actor page password s1) = Inl e"
      using fillPassword_actor_fails by blast
    then show ?thesis
      using f Inr
      by (cases "fillPassword_actor page password s1")
         (simp add: performFacebookLogin_actor_def seq_def bnd_def)
  qed
qed

text \<open>
  Claim C5. In a headless run (\<^verbatim>\<open>headless\<close> truthy in \<^verbatim>\<open>messenger.js\<close>, the variable
  \<^verbatim>\<open>HEADLESS\<close> equal to \<^verbatim>\<open>"true"\<close> in \<^verbatim>\<open>messengerrrr.js\<close>), the challenge chain is its
  detection script followed by the automated strategy and nothing else: it returns what the
  strategy returns (false when the strategy fails) in the state the strategy left, and it
  adds no poll of the manual window; and no run of \<^verbatim>\<open>sendMessageToProfile\<close> adds a poll
  of the manual window, whatever the browser does.
\<close>

theorem headless_skips_manual_window:
  assumes "truthy headless" and "HEADLESS ev = Some ''true''"
  shows "solveCaptcha_actor cs headless s =
           (if cs_present cs then solveRecaptchaAudio_actor cs (detected s)
            else (Inr True, detected s)) \<and>
         solveCaptcha_enh cs (HEADLESS ev) s =
           (if cs_present cs then solveRecaptchaAudio_enh cs (detected s)
            else (Inr True, detected s)) \<and>
         filter is_poll (added s (snd (solveCaptcha_actor cs headless s))) = [] \<and>
         filter is_poll (added s (snd (solveCaptcha_enh cs (HEADLESS ev) s))) = [] \<and>
         filter is_poll
           (added s (snd (sendMessageToProfile_actor ev page prof m email headless s))) = [] \<and>
         filter is_poll (added s (snd (sendMessageToProfile_enh ev page prof m s))) = []"
proof (intro conjI)
  show "solveCaptcha_actor cs headless s =
           (if cs_present cs then solveRecaptchaAudio_actor cs (detected s)
            else (Inr True, detected s))"
    using assms(1) by (rule solveCaptcha_actor_headless)
  show "solveCaptcha_enh cs (HEADLESS ev) s =
           (if cs_present cs then solveRecaptchaAudio_enh cs (detected s)
            else (Inr True, detected s))"
    using assms(2) by (simp add: solveCaptcha_enh_headless)
  show "filter is_poll (added s (snd (solveCaptcha_actor cs headless s))) = []"
    using assms(1) by (intro only_quiet_no_poll quiet_solveCaptcha_actor_headless)
  show "filter is_poll (added s (snd (solveCaptcha_enh cs (HEADLESS ev) s))) = []"
    using assms(2) by (simp add: only_quiet_no_poll quiet_solveCaptcha_enh_headless)
  show "filter is_poll
           (added s (snd (sendMessageToProfile_actor ev page prof m email headless s))) = []"
    by (intro only_quiet_no_poll quiet_sendMessageToProfile_actor)
  show "filter is_poll (added s (snd (sendMessageToProfile_enh ev page prof m s))) = []"
    using assms(2) by (intro only_quiet_no_poll quiet_sendMessageToProfile_enh)
qed

text \<open>
  A headless run that meets a login followed by a challenge the automated strategy cannot
  solve: the chain returns false, and the run holds no poll.
\<close>

theorem headless_skips_manual_window_witness:
  "truthy (JBool True) \<and> HEADLESS env0 = Some ''true'' \<and>
   fst (solveCaptcha_enh captcha_stuck (HEADLESS env0) state0) = Inr False \<and>
   filter is_poll
     (added state0 (snd (sendMessageToProfile_enh env0 login_first_page p1 ''hi'' state0))) = []"
proof -
  have h: "truthy (JBool True)" "HEADLESS env0 = Some ''true''"
    by (simp_all add: env0_def)
  have f: "fst (solveRecaptchaAudio_enh captcha_stuck (detected state0)) = Inr False"
    by code_simp
  have p: "cs_present captcha_stuck"
    by (simp add: captcha_stuck_def)
  show ?thesis
    using h f p
      headless_skips_manual_window
        [OF h, of captcha_stuck state0 login_first_page p1 "''hi''" "''a@x.com''"]
    by simp
qed

text \<open>
  For comparison, the same page in an interactive run of \<^verbatim>\<open>messengerrrr.js\<close>: the manual
  window is entered, and the challenge is gone at the third poll.
\<close>

lemma interactive_enters_manual_window:
  "filter is_poll
     (added state0
        (snd (sendMessageToProfile_enh (env0\<lparr>HEADLESS := Some ''false''\<rparr>) login_first_page p1
                ''hi'' state0))) =
   [Evaluate ''stillPresent'', Evaluate ''stillPresent'', Evaluate ''stillPresent'']"
  by code_simp


text \<open>
  The call \<^verbatim>\<open>solveCaptcha(page)\<close> in \<^verbatim>\<open>performFacebookLogin\<close> of \<^verbatim>\<open>messenger.js\<close> passes no
  second argument. A chain entered with \<^verbatim>\<open>headless\<close> undefined does go into the manual
  window when the strategy fails; by the first lemma of this subsection no run of
  \<^verbatim>\<open>messenger.js\<close> gets as far as that call.
\<close>

lemma solveCaptcha_actor_without_headless:
  "filter is_poll (added state0 (snd (solveCaptcha_actor captcha_stuck JUndefined state0))) =
   [Evaluate ''stillPresent'', Evaluate ''stillPresent'', Evaluate ''stillPresent'']"
  by code_simp

subsection \<open>C6: the password step\<close>

text \<open>
  Claim C6 says that, the password field located, the login clicks it, types the password
  into it and then submits. \<^verbatim>\<open>messengerrrr.js\<close> does; \<^verbatim>\<open>messenger.js\<close> does not. On a
  login form with all three elements, \<^verbatim>\<open>performFacebookLogin\<close> of \<^verbatim>\<open>messenger.js\<close> throws
  the \<^verbatim>\<open>TypeError\<close> of \<^verbatim>\<open>humanType\<close> called on the selector string: the password field is
  clicked, nothing is typed into it, the login button is never looked up and no key is
  pressed. On the same form \<^verbatim>\<open>messengerrrr.js\<close> types the password and looks the login
  button up.
\<close>

theorem actor_login_types_no_password:
  "(let r = performFacebookLogin_actor login_form (Some ''a@x.com'') (Some ''s'') state0
    in fst r = Inl (Thrown ''elementHandle.click is not a function'') \<and>
       ElemClick passwordSelector \<in> set (trace (snd r)) \<and>
       ElemType passwordSelector ''s'' \<notin> set (trace (snd r)) \<and>
       Query loginButtonSelector \<notin> set (trace (snd r)) \<and>
       KeyPress ''Enter'' \<notin> set (trace (snd r))) \<and>
   (let r = performFacebookLogin_enh env0 login_form (Some ''a@x.com'') (Some ''s'') state0
    in fst r = Inr True \<and>
       ElemType passwordSelector ''s'' \<in> set (trace (snd r)) \<and>
       Query loginButtonSelector \<in> set (trace (snd r)))"
  by code_simp

subsection \<open>C7: validation of the input\<close>

text \<open>
  Claim C7 says that an input without a required field fails before the browser is
  launched, and that the values supplied are the ones used. \<^verbatim>\<open>Actor.main\<close> of
  \<^verbatim>\<open>messenger.js\<close> accepts the empty input: its validation passes with the string literals
  of the source as credentials, the default profile list and the message
  \<^verbatim>\<open>"Hello World"\<close>. And given an input that supplies all four fields, it goes on with the
  string literals instead of the credentials supplied. The checks of \<^verbatim>\<open>main.js\<close> refuse the
  empty input.
\<close>

theorem actor_accepts_empty_input:
  "resolveInput_actor \<lparr>LOGIN_EMAIL = None, LOGIN_PASSWORD = None, HEADLESS = None\<rparr> (JObj []) =
     Inr \<lparr>r_loginEmail = JStr hardcodedEmail, r_loginPassword = JStr hardcodedPassword,
          r_profiles = defaultProfiles, r_message = JStr ''Hello World'',
          r_headless = JBool False\<rparr> \<and>
   resolveInput_actor \<lparr>LOGIN_EMAIL = None, LOGIN_PASSWORD = None, HEADLESS = None\<rparr>
     (JObj [(''loginEmail'', JStr ''a@x.com''), (''loginPassword'', JStr ''s''),
            (''profiles'', JArr [JObj [(''id'', JStr ''p1''), (''url'', JStr ''u1'')]]),
            (''message'', JStr ''hi'')]) =
     Inr \<lparr>r_loginEmail = JStr hardcodedEmail, r_loginPassword = JStr hardcodedPassword,
          r_profiles = JArr [JObj [(''id'', JStr ''p1''), (''url'', JStr ''u1'')]],
          r_message = JStr ''hi'', r_headless = JBool False\<rparr> \<and>
   validate_main (JObj []) =
     Inl ''loginEmail and loginPassword are required in INPUT.json or Apify Console.''"
  by (simp add: resolveInput_actor_def validate_main_def js_or_def js_get_def falsy_def
        not_array_def length_is_zero_def not_string_def env_value_def hardcodedEmail_def
        hardcodedPassword_def defaultProfiles_def)

text \<open>
  The literals are truthy whatever the input and the environment hold, so the first check
  of \<^verbatim>\<open>Actor.main\<close> can never fail, and the credentials it goes on with never come from
  the input.
\<close>

lemma actor_credentials_are_the_literals:
  "resolveInput_actor ev got = Inr r \<Longrightarrow>
   r_loginEmail r = JStr hardcodedEmail \<and> r_loginPassword r = JStr hardcodedPassword"
  by (auto simp: resolveInput_actor_def js_or_def falsy_def hardcodedEmail_def
        hardcodedPassword_def Let_def split: if_splits)


subsection \<open>C8: the checkbox path short-circuits the chain\<close>

text \<open>
  Claim C8. For every challenge that the checkbox path resolves (the reCAPTCHA iframe is
  there, the click on the checkbox does not throw, and no challenge frame is found
  afterwards), the automated strategy and the whole chain return true, in both files and
  in either mode, and the run of the chain adds no event of the audio path: no call on the
  challenge frame, no download, no typing.
\<close>

theorem checkbox_short_circuit:
  assumes "checkbox_resolves cs"
  shows "fst (solveRecaptchaAudio_actor cs s) = Inr True \<and>
         fst (solveRecaptchaAudio_enh cs s) = Inr True \<and>
         fst (solveCaptcha_actor cs headless s) = Inr True \<and>
         fst (solveCaptcha_enh cs hv s) = Inr True \<and>
         filter audio_event (added s (snd (solveCaptcha_actor cs headless s))) = [] \<and>
         filter audio_event (added s (snd (solveCaptcha_enh cs hv s))) = []"
proof -
  have 1: "fst (solveRecaptchaAudio_actor cs s) = Inr True"
    using assms by (simp add: solveRecaptchaAudio_actor_result)
  have 2: "fst (solveRecaptchaAudio_enh cs s) = Inr True" for s
    using assms
    by (auto simp: solveRecaptchaAudio_enh_def checkbox_defs split: option.splits if_splits)
  have 5: "fst (solveCaptcha_actor cs headless s) = Inr True"
    using assms
    by (auto simp: solveCaptcha_actor_def solveRecaptchaAudio_actor_def checkbox_defs
          split: option.splits if_splits)
  have 6: "fst (solveCaptcha_enh cs hv s) = Inr True"
    using assms
    by (auto simp: solveCaptcha_enh_def solveRecaptchaAudio_enh_def checkbox_defs
          split: option.splits if_splits)
  have 7: "filter audio_event (added s (snd (solveCaptcha_actor cs headless s))) = []"
    using assms
    by (auto simp: solveCaptcha_actor_def solveRecaptchaAudio_actor_def checkbox_defs
          split: option.splits if_splits)
  have 8: "filter audio_event (added s (snd (solveCaptcha_enh cs hv s))) = []"
    using assms
    by (auto simp: solveCaptcha_enh_def solveRecaptchaAudio_enh_def checkbox_defs
          split: option.splits if_splits)
  show ?thesis using 1 2 5 6 7 8 by simp
qed

text \<open>A challenge whose audio path is open, but which the click on the checkbox resolves.\<close>

theorem checkbox_short_circuit_witness:
  "checkbox_resolves captcha_checkbox \<and>
   fst (solveCaptcha_enh captcha_checkbox (Some ''true'') state0) = Inr True \<and>
   filter audio_event
     (added state0 (snd (solveCaptcha_enh captcha_checkbox (Some ''true'') state0))) = []"
proof -
  have h: "checkbox_resolves captcha_checkbox"
    by (simp add: checkbox_resolves_def captcha_checkbox_def captcha_audio_def elem_def)
  show ?thesis
    using h checkbox_short_circuit [OF h, of state0 JUndefined "Some ''true''"] by simp
qed


subsection \<open>C9: a click on an element without a bounding box\<close>

text \<open>
  Claim C9 as stated fails: \<^verbatim>\<open>humanClick\<close> reports nothing. On an element without a
  bounding box it resolves exactly as it does after a click; and a run in which no element
  has a bounding box, so that no click is ever made, still returns a successful outcome
  with both flags \<^verbatim>\<open>"Yes"\<close>.
\<close>

theorem humanClick_failure_not_reported:
  "fst (humanClick (RElem ((elem ''#b'')\<lparr>el_box := False\<rparr>)) state0) = Inr () \<and>
   fst (humanClick (RElem (elem ''#b'')) state0) = Inr () \<and>
   (let r = sendMessageToProfile_enh env0 boxless_page p1 ''hi'' state0
    in fst r =
         Inr \<lparr>success = True, profileId = ''p1'', url = ''u1'', error = None,
              durationMs = Some 12900, message = Some ''hi'',
              messageButtonPresent = Some ''Yes'', messageSent = Some ''Yes'',
              timestamp = None\<rparr> \<and>
       filter is_click (trace (snd r)) = [])"
  by code_simp

text \<open>
  Claim C9, amended. For every element that exposes no bounding box, \<^verbatim>\<open>humanClick\<close>
  performs no input action (it only asks for the bounding box) and returns normally,
  without an error and without a value: the caller is not told.
\<close>

theorem humanClick_without_box:
  assumes "el_box e = False"
  shows "humanClick (RElem e) s = (Inr (), s\<lparr>trace := trace s @ [BoundingBox (el_sel e)]\<rparr>) \<and>
         filter input_action (added s (snd (humanClick (RElem e) s))) = []"
  using assms
  by (simp add: humanClick_def boundingBox_def seq_def bnd_def emit_def ret_def added_def)

theorem humanClick_without_box_witness:
  "el_box ((elem ''#b'')\<lparr>el_box := False\<rparr>) = False \<and>
   humanClick (RElem ((elem ''#b'')\<lparr>el_box := False\<rparr>)) state0 =
     (Inr (), state0\<lparr>trace := [BoundingBox ''#b'']\<rparr>)"
  using humanClick_without_box [of "(elem ''#b'')\<lparr>el_box := False\<rparr>" state0]
  by (simp add: elem_def state0_def)


subsection \<open>C10: the transcription of the audio challenge\<close>

text \<open>
  Claim C10 as stated fails on \<^verbatim>\<open>messengerrrr.js\<close>, which has no transcription backend and
  no way to configure one: on a challenge whose audio path is open, with all random draws
  zero, its strategy downloads the audio, types the word \<^verbatim>\<open>zero\<close> into the response field,
  clicks the verify button and returns true.
\<close>

theorem mock_answer_injected:
  "(let r = solveRecaptchaAudio_enh captcha_audio state0
    in fst r = Inr True \<and>
       ElemType ''#audio-response'' ''zero'' \<in> set (trace (snd r)) \<and>
       ElemClick ''#recaptcha-verify-button'' \<in> set (trace (snd r)))"
  by code_simp

text \<open>
  Claim C10, amended. In \<^verbatim>\<open>messengerrrr.js\<close>, \<^verbatim>\<open>processAudioChallenge\<close> answers with one of
  the ten number words, picked by \<^verbatim>\<open>Math.random()\<close> whatever the audio holds, when the
  download resolves; it answers \<^verbatim>\<open>null\<close> when the download rejects; and the process ends
  when the request fails. Whatever its strategy types is one of the ten number words. And
  when the audio path of the challenge is open, the strategy types one of the ten number
  words into the response field, clicks the verify button and returns true. The strategy
  of \<^verbatim>\<open>messenger.js\<close> has no audio path: it returns true exactly when the checkbox path
  resolves the challenge, and false otherwise.
\<close>

theorem mock_transcription:
  "fst (processAudioChallenge cs audioUrl s) =
     (case cs_download cs of
        Fetched \<Rightarrow> Inr (Some (numbers ! (next_draw s mod 10)))
      | Rejected e \<Rightarrow> Inr None
      | Unheard e \<Rightarrow> Inl (Uncaught e)) \<and>
   numbers ! (next_draw s mod 10) \<in> set numbers \<and>
   list_all types_number_word (added s (snd (solveRecaptchaAudio_enh cs s))) \<and>
   (audio_path_open cs audioInput verifyButton \<longrightarrow>
      fst (solveRecaptchaAudio_enh cs s) = Inr True \<and>
      (\<exists>w. w \<in> set numbers \<and>
           ElemType (el_sel audioInput) w \<in>
             set (added s (snd (solveRecaptchaAudio_enh cs s)))) \<and>
      ElemClick (el_sel verifyButton) \<in> set (added s (snd (solveRecaptchaAudio_enh cs s)))) \<and>
   fst (solveRecaptchaAudio_actor cs s) = Inr (checkbox_resolves cs)"
proof -
  obtain new where "trace (snd (solveRecaptchaAudio_enh cs s)) = trace s @ new"
    "list_all types_number_word new"
    using types_words_solveRecaptchaAudio_enh [of cs]
    by (auto simp: only_def dest: spec [of _ s])
  then have words: "list_all types_number_word (added s (snd (solveRecaptchaAudio_enh cs s)))"
    by (simp add: added_def)
  have "fst (solveRecaptchaAudio_enh cs s) = Inr True \<and>
      (\<exists>w. w \<in> set numbers \<and>
           ElemType (el_sel audioInput) w \<in>
             set (added s (snd (solveRecaptchaAudio_enh cs s)))) \<and>
      ElemClick (el_sel verifyButton) \<in> set (added s (snd (solveRecaptchaAudio_enh cs s)))"
    if path: "audio_path_open cs audioInput verifyButton"
  proof -
    obtain w where typed: "ElemType (el_sel audioInput) w \<in>
        set (added s (snd (solveRecaptchaAudio_enh cs s)))"
      using audio_path_open_run [OF path, of s] by blast
    then have "w \<in> set numbers"
      using words by (auto simp: list_all_iff)
    then show ?thesis
      using typed audio_path_open_run [OF path, of s] by blast
  qed
  then show ?thesis
    using words processAudioChallenge_result [of cs audioUrl s] number_word [of "next_draw s"]
      solveRecaptchaAudio_actor_result [of cs s]
    by simp
qed

text \<open>The challenge of the counterexample, with the draws 7, 7, 7, 7, 3 and so on.\<close>

theorem mock_transcription_witness:
  "audio_path_open captcha_audio (elem ''#audio-response'') (elem ''#recaptcha-verify-button'') \<and>
   fst (solveRecaptchaAudio_enh captcha_audio (state0\<lparr>rnd := [7, 7, 7, 7, 3, 1, 4]\<rparr>)) =
     Inr True \<and>
   (\<exists>w. w \<in> set numbers \<and>
        ElemType ''#audio-response'' w \<in>
          set (added (state0\<lparr>rnd := [7, 7, 7, 7, 3, 1, 4]\<rparr>)
                 (snd (solveRecaptchaAudio_enh captcha_audio
                         (state0\<lparr>rnd := [7, 7, 7, 7, 3, 1, 4]\<rparr>)))))"
proof -
  have h: "audio_path_open captcha_audio (elem ''#audio-response'')
             (elem ''#recaptcha-verify-button'')"
    by (simp add: audio_path_open_def captcha_audio_def elem_def)
  show ?thesis
    using h mock_transcription
      [of captcha_audio "''u''" "state0\<lparr>rnd := [7, 7, 7, 7, 3, 1, 4]\<rparr>"
          "elem ''#audio-response''" "elem ''#recaptcha-verify-button''"]
    by (simp add: elem_def)
qed

text \<open>
  The same run, read off: the fifth draw picks the word, here \<^verbatim>\<open>three\<close>.
\<close>

lemma mock_answer_follows_the_draw:
  "ElemType ''#audio-response'' ''three'' \<in>
     set (trace (snd (solveRecaptchaAudio_enh captcha_audio
                        (state0\<lparr>rnd := [7, 7, 7, 7, 3, 1, 4]\<rparr>))))"
  by code_simp

end
